theory Spec2Isabelle
  imports Complex_Main "HOL-Library.AList"
begin

section \<open>Scores and their aggregation (src/src/evaluator.py)\<close>

text \<open>
  \<^verbatim>\<open>DocumentEvaluation\<close> is a dataclass of seven fields annotated \<^verbatim>\<open>float\<close>. Python does
  not enforce the annotation, so the type of the field values is a parameter: a score is a
  \<open>real DocumentEvaluation\<close> (Python floats are modelled as real numbers: rounding is not
  modelled), and what \<^verbatim>\<open>from_dict\<close> builds from a response holds JSON values. The weights
  are Python ints.
\<close>

record 'v DocumentEvaluation =
  relevance :: 'v
  factual_accuracy :: 'v
  clarity :: 'v
  hallucination :: 'v
  style_match :: 'v
  rag_usability :: 'v
  citation_quality :: 'v

text \<open>The keys of \<^verbatim>\<open>weighted_sums\<close>, in the order of the dict literal.\<close>

definition score_keys :: "string list" where
  "score_keys = [''relevance'', ''factual_accuracy'', ''clarity'', ''hallucination'',
     ''style_match'', ''rag_usability'', ''citation_quality'']"

text \<open>\<^verbatim>\<open>getattr(evaluation, key)\<close>; \<open>None\<close> stands for the AttributeError of an unknown name.\<close>

definition getattr :: "'v DocumentEvaluation \<Rightarrow> string \<Rightarrow> 'v option" where
  "getattr e key =
     (if key = ''relevance'' then Some (relevance e)
      else if key = ''factual_accuracy'' then Some (factual_accuracy e)
      else if key = ''clarity'' then Some (clarity e)
      else if key = ''hallucination'' then Some (hallucination e)
      else if key = ''style_match'' then Some (style_match e)
      else if key = ''rag_usability'' then Some (rag_usability e)
      else if key = ''citation_quality'' then Some (citation_quality e)
      else None)"

definition to_dict :: "real DocumentEvaluation \<Rightarrow> (string \<times> real) list" where
  "to_dict e =
     [(''relevance'', relevance e),
      (''factual_accuracy'', factual_accuracy e),
      (''clarity'', clarity e),
      (''hallucination'', hallucination e),
      (''style_match'', style_match e),
      (''rag_usability'', rag_usability e),
      (''citation_quality'', citation_quality e)]"

text \<open>\<^verbatim>\<open>cls(0, 0, 0, 0, 0, 0, 0)\<close>\<close>

definition zero_evaluation :: "real DocumentEvaluation" where
  "zero_evaluation =
     \<lparr>relevance = 0, factual_accuracy = 0, clarity = 0, hallucination = 0,
      style_match = 0, rag_usability = 0, citation_quality = 0\<rparr>"

text \<open>
  The body of the double loop of \<^verbatim>\<open>weighted_average\<close>:
  \<^verbatim>\<open>weighted_sums[key] += getattr(evaluation, key) * weight\<close>.
  The keys are those of \<^verbatim>\<open>weighted_sums\<close> itself and name fields of the dataclass, so
  neither lookup fails; the model leaves the dict unchanged in that case.
\<close>

definition add_weighted ::
  "real DocumentEvaluation \<Rightarrow> int \<Rightarrow> (string \<rightharpoonup> real) \<Rightarrow> string \<Rightarrow> (string \<rightharpoonup> real)" where
  "add_weighted evaluation weight weighted_sums key =
     (case (weighted_sums key, getattr evaluation key) of
        (Some s, Some v) \<Rightarrow> weighted_sums(key \<mapsto> s + v * real_of_int weight)
      | _ \<Rightarrow> weighted_sums)"

definition accumulate ::
  "(string \<rightharpoonup> real) \<Rightarrow> real DocumentEvaluation \<times> int \<Rightarrow> (string \<rightharpoonup> real)" where
  "accumulate weighted_sums ew =
     foldl (add_weighted (fst ew) (snd ew)) weighted_sums score_keys"

definition initial_sums :: "string \<rightharpoonup> real" where
  "initial_sums = map_of (map (\<lambda>k. (k, 0)) score_keys)"

text \<open>\<^verbatim>\<open>weighted_sums[key] / total_weight\<close>; the key is always present.\<close>

definition sum_over :: "(string \<rightharpoonup> real) \<Rightarrow> string \<Rightarrow> int \<Rightarrow> real" where
  "sum_over weighted_sums key total_weight =
     (case weighted_sums key of Some s \<Rightarrow> s / real_of_int total_weight | None \<Rightarrow> 0)"

definition weighted_average ::
  "(real DocumentEvaluation \<times> int) list \<Rightarrow> real DocumentEvaluation" where
  "weighted_average evaluations =
     (if evaluations = [] then zero_evaluation
      else
        let total_weight = sum_list (map snd evaluations) in
        if total_weight = 0 then zero_evaluation
        else
          let weighted_sums = foldl accumulate initial_sums evaluations in
          \<lparr>relevance = sum_over weighted_sums ''relevance'' total_weight,
           factual_accuracy = sum_over weighted_sums ''factual_accuracy'' total_weight,
           clarity = sum_over weighted_sums ''clarity'' total_weight,
           hallucination = sum_over weighted_sums ''hallucination'' total_weight,
           style_match = sum_over weighted_sums ''style_match'' total_weight,
           rag_usability = sum_over weighted_sums ''rag_usability'' total_weight,
           citation_quality = sum_over weighted_sums ''citation_quality'' total_weight\<rparr>)"

text \<open>The formula of the specification, one dimension at a time.\<close>

definition weighted_mean ::
  "(real DocumentEvaluation \<Rightarrow> real) \<Rightarrow> (real DocumentEvaluation \<times> int) list \<Rightarrow> real" where
  "weighted_mean dimension samples =
     (\<Sum>(e, w)\<leftarrow>samples. dimension e * real_of_int w) / real_of_int (\<Sum>(e, w)\<leftarrow>samples. w)"

definition all_fives :: "real DocumentEvaluation" where
  "all_fives =
     \<lparr>relevance = 5, factual_accuracy = 5, clarity = 5, hallucination = 5,
      style_match = 5, rag_usability = 5, citation_quality = 5\<rparr>"

definition all_quarters :: "real DocumentEvaluation" where
  "all_quarters =
     \<lparr>relevance = 1.25, factual_accuracy = 1.25, clarity = 1.25, hallucination = 1.25,
      style_match = 1.25, rag_usability = 1.25, citation_quality = 1.25\<rparr>"

section \<open>Python strings (the operations the program uses)\<close>

text \<open>
  A Python \<^verbatim>\<open>str\<close> is modelled as a list of characters with code points below 256.
\<close>

text \<open>\<^verbatim>\<open>str(n)\<close> for an int.\<close>

function str_nat :: "nat \<Rightarrow> string" where
  "str_nat n =
     (if n < 10 then [''0123456789'' ! n]
      else str_nat (n div 10) @ [''0123456789'' ! (n mod 10)])"
  by pat_completeness auto
termination
  by (relation "measure id") auto

declare str_nat.simps [simp del]

definition str_int :: "int \<Rightarrow> string" where
  "str_int i = (if i < 0 then ''-'' @ str_nat (nat (- i)) else str_nat (nat i))"

text \<open>\<^verbatim>\<open>sep.join(parts)\<close>\<close>

fun join :: "string \<Rightarrow> string list \<Rightarrow> string" where
  "join sep [] = []"
| "join sep [x] = x"
| "join sep (x # y # ys) = x @ sep @ join sep (y # ys)"

text \<open>
  \<^verbatim>\<open>s.split(sep)\<close> for a non-empty separator: the occurrences of \<open>sep\<close> are found from
  the left and do not overlap; the result is never empty. (Python raises ValueError for
  an empty separator; the program only splits on two-character separators.)
\<close>

function split_on :: "string \<Rightarrow> string \<Rightarrow> string list" where
  "split_on sep [] = [[]]"
| "split_on sep (c # cs) =
     (if sep \<noteq> [] \<and> take (length sep) (c # cs) = sep
      then [] # split_on sep (drop (length sep) (c # cs))
      else (case split_on sep cs of [] \<Rightarrow> [[c]] | p # ps \<Rightarrow> (c # p) # ps))"
  by pat_completeness auto
termination
  by (relation "measure (\<lambda>(sep, s). length s)") auto

text \<open>\<^verbatim>\<open>c.isspace()\<close> for code points below 256, and \<^verbatim>\<open>s.strip()\<close>.\<close>

definition py_isspace :: "char \<Rightarrow> bool" where
  "py_isspace c \<longleftrightarrow>
     c \<in> {CHR 0x09, CHR 0x0A, CHR 0x0B, CHR 0x0C, CHR 0x0D, CHR 0x1C, CHR 0x1D, CHR 0x1E,
          CHR 0x1F, CHR 0x20, CHR 0x85, CHR 0xA0}"

definition strip :: "string \<Rightarrow> string" where
  "strip s = rev (dropWhile py_isspace (rev (dropWhile py_isspace s)))"

section \<open>Exceptions\<close>

text \<open>
  The exception classes that occur. \<open>Unmodelled\<close> is not a Python exception: it marks a
  replacement field that \<open>str_format\<close> below does not render (an attribute, an index, a
  conversion or a format specification on a value that was found).
\<close>

datatype py_exception =
    KeyError string
  | IndexError string
  | ValueError string
  | AttributeError string
  | TypeError string
  | FileNotFoundError string
  | RateLimitError string
  | APITimeoutError string
  | APIError string
  | JSONDecodeError string
  | Exception string
  | Unmodelled string

text \<open>
  \<^verbatim>\<open>repr\<close> of a string made of printable ASCII characters, newlines, carriage returns
  and tabs, and \<^verbatim>\<open>str(e)\<close>: the message, and for a KeyError the \<^verbatim>\<open>repr\<close> of the key.
\<close>

definition py_repr :: "string \<Rightarrow> string" where
  "py_repr s =
     (let quote = (if CHR 0x27 \<in> set s \<and> CHR 0x22 \<notin> set s then CHR 0x22 else CHR 0x27);
          escape = (\<lambda>c. if c = CHR 0x5C then [CHR 0x5C, CHR 0x5C]
                         else if c = quote then [CHR 0x5C, quote]
                         else if c = CHR 0x0A then [CHR 0x5C, CHR ''n'']
                         else if c = CHR 0x0D then [CHR 0x5C, CHR ''r'']
                         else if c = CHR 0x09 then [CHR 0x5C, CHR ''t'']
                         else [c])
      in [quote] @ concat (map escape s) @ [quote])"

fun str_exc :: "py_exception \<Rightarrow> string" where
  "str_exc (KeyError k) = py_repr k"
| "str_exc (IndexError m) = m"
| "str_exc (ValueError m) = m"
| "str_exc (AttributeError m) = m"
| "str_exc (TypeError m) = m"
| "str_exc (FileNotFoundError m) = m"
| "str_exc (RateLimitError m) = m"
| "str_exc (APITimeoutError m) = m"
| "str_exc (APIError m) = m"
| "str_exc (JSONDecodeError m) = m"
| "str_exc (Exception m) = m"
| "str_exc (Unmodelled m) = m"

section \<open>\<^verbatim>\<open>str.format\<close> with keyword arguments only\<close>

text \<open>
  \<^verbatim>\<open>template.format(**kwargs)\<close>, as CPython scans a format string: literal text up to a
  brace; two equal braces in a row are one literal brace; a single opening brace opens
  a replacement field whose name runs to the first closing brace, colon or exclamation
  mark outside square brackets; after a colon the format specification runs to the
  matching closing brace. Each field is looked up as soon as it is complete, so the
  first field that fails raises. The first part of the name (up to a dot or an opening
  square bracket) is a position when it is empty or a number, and a keyword otherwise;
  there are no positional arguments here, so a position raises IndexError and a keyword
  that is not an argument raises KeyError.
\<close>

datatype fmt_mode =
    Literal
  | Field_name bool string
  | Conversion string
  | After_conversion string char
  | Format_spec string "char option" nat string

definition is_position :: "string \<Rightarrow> bool" where
  "is_position first \<longleftrightarrow> list_all (\<lambda>c. c \<in> set ''0123456789'') first"

definition position_of :: "string \<Rightarrow> nat" where
  "position_of first = foldl (\<lambda>n c. 10 * n + (of_char c - 48)) 0 first"

definition get_field ::
  "(string \<rightharpoonup> string) \<Rightarrow> string \<Rightarrow> char option \<Rightarrow> string \<Rightarrow> py_exception + string" where
  "get_field kwargs field_name conversion format_spec =
     (let first = takeWhile (\<lambda>c. c \<noteq> CHR ''.'' \<and> c \<noteq> CHR ''['') field_name;
          rest = dropWhile (\<lambda>c. c \<noteq> CHR ''.'' \<and> c \<noteq> CHR ''['') field_name
      in if is_position first
         then Inl (IndexError (''Replacement index '' @ str_nat (position_of first) @
                               '' out of range for positional args tuple''))
         else (case kwargs first of
                 None \<Rightarrow> Inl (KeyError first)
               | Some v \<Rightarrow>
                   if rest = [] \<and> conversion = None \<and> format_spec = [] then Inr v
                   else Inl (Unmodelled field_name)))"

fun fmt_scan ::
  "(string \<rightharpoonup> string) \<Rightarrow> fmt_mode \<Rightarrow> string \<Rightarrow> string \<Rightarrow> py_exception + string" where
  "fmt_scan kwargs Literal out [] = Inr (rev out)"
| "fmt_scan kwargs Literal out (c # cs) =
     (if c = CHR ''{'' then
        (case cs of
           [] \<Rightarrow> Inl (ValueError ''Single '{' encountered in format string'')
         | d # ds \<Rightarrow>
             if d = CHR ''{'' then fmt_scan kwargs Literal (c # out) ds
             else fmt_scan kwargs (Field_name False []) out cs)
      else if c = CHR ''}'' then
        (case cs of
           [] \<Rightarrow> Inl (ValueError ''Single '}' encountered in format string'')
         | d # ds \<Rightarrow>
             if d = CHR ''}'' then fmt_scan kwargs Literal (c # out) ds
             else Inl (ValueError ''Single '}' encountered in format string''))
      else fmt_scan kwargs Literal (c # out) cs)"
| "fmt_scan kwargs (Field_name in_brackets name) out [] =
     Inl (ValueError ''expected '}' before end of string'')"
| "fmt_scan kwargs (Field_name True name) out (c # cs) =
     fmt_scan kwargs (Field_name (c \<noteq> CHR '']'') (c # name)) out cs"
| "fmt_scan kwargs (Field_name False name) out (c # cs) =
     (if c = CHR ''{'' then Inl (ValueError ''unexpected '{' in field name'')
      else if c = CHR ''['' then fmt_scan kwargs (Field_name True (c # name)) out cs
      else if c = CHR ''}'' then
        (case get_field kwargs (rev name) None [] of
           Inl e \<Rightarrow> Inl e
         | Inr v \<Rightarrow> fmt_scan kwargs Literal (rev v @ out) cs)
      else if c = CHR '':'' then fmt_scan kwargs (Format_spec name None 1 []) out cs
      else if c = CHR ''!'' then fmt_scan kwargs (Conversion name) out cs
      else fmt_scan kwargs (Field_name False (c # name)) out cs)"
| "fmt_scan kwargs (Conversion name) out [] =
     Inl (ValueError ''end of string while looking for conversion specifier'')"
| "fmt_scan kwargs (Conversion name) out (c # cs) =
     fmt_scan kwargs (After_conversion name c) out cs"
| "fmt_scan kwargs (After_conversion name conv) out [] =
     Inl (ValueError ''unmatched '{' in format spec'')"
| "fmt_scan kwargs (After_conversion name conv) out (c # cs) =
     (if c = CHR ''}'' then
        (case get_field kwargs (rev name) (Some conv) [] of
           Inl e \<Rightarrow> Inl e
         | Inr v \<Rightarrow> fmt_scan kwargs Literal (rev v @ out) cs)
      else if c \<noteq> CHR '':'' then Inl (ValueError ''expected ':' after conversion specifier'')
      else fmt_scan kwargs (Format_spec name (Some conv) 1 []) out cs)"
| "fmt_scan kwargs (Format_spec name conv count spec) out [] =
     Inl (ValueError ''unmatched '{' in format spec'')"
| "fmt_scan kwargs (Format_spec name conv count spec) out (c # cs) =
     (if c = CHR ''{'' then fmt_scan kwargs (Format_spec name conv (count + 1) (c # spec)) out cs
      else if c = CHR ''}'' then
        (if count = 1 then
           (case get_field kwargs (rev name) conv (rev spec) of
              Inl e \<Rightarrow> Inl e
            | Inr v \<Rightarrow> fmt_scan kwargs Literal (rev v @ out) cs)
         else fmt_scan kwargs (Format_spec name conv (count - 1) (c # spec)) out cs)
      else fmt_scan kwargs (Format_spec name conv count (c # spec)) out cs)"

definition str_format :: "string \<Rightarrow> (string \<rightharpoonup> string) \<Rightarrow> py_exception + string" where
  "str_format template kwargs = fmt_scan kwargs Literal [] template"

section \<open>The evaluator (src/src/evaluator.py)\<close>

record DocumentChunk =
  text_str :: string
  token_count :: nat
  chunk_index :: nat
  total_chunks :: nat

text \<open>\<^verbatim>\<open>LLMEvaluator.EVALUATION_PROMPT\<close>, character for character.\<close>

definition EVALUATION_PROMPT :: string where
  \<open>EVALUATION_PROMPT =
     ''You are an expert evaluator assessing document quality for use with Large Language Models (LLMs) and Retrieval-Augmented Generation (RAG) systems.\<newline>'' @
     ''\<newline>'' @
     ''Evaluate the following document text on these criteria (score 0-5 for each):\<newline>'' @
     ''\<newline>'' @
     ''1. **Relevance** (0-5): How relevant and focused is the content? Does it stay on topic?\<newline>'' @
     ''2. **Factual Accuracy** (0-5): Does the content appear factually accurate and well-researched?\<newline>'' @
     ''3. **Clarity** (0-5): Is the writing clear, well-structured, and easy to understand?\<newline>'' @
     ''4. **Hallucination Risk** (0-5): How likely is this content to cause LLM hallucinations? (0=very likely, 5=very unlikely)\<newline>'' @
     ''5. **Style Match** (0-5): Is the writing style consistent and professional?\<newline>'' @
     ''6. **RAG Usability** (0-5): How useful would this be as context for a RAG system? Is it well-structured for retrieval?\<newline>'' @
     ''7. **Citation Quality** (0-5): Are sources, references, and citations properly included and formatted?\<newline>'' @
     ''\<newline>'' @
     ''Respond ONLY with a JSON object in this exact format:\<newline>'' @
     ''{\<newline>'' @
     ''  "relevance": <score>,\<newline>'' @
     ''  "factual_accuracy": <score>,\<newline>'' @
     ''  "clarity": <score>,\<newline>'' @
     ''  "hallucination": <score>,\<newline>'' @
     ''  "style_match": <score>,\<newline>'' @
     ''  "rag_usability": <score>,\<newline>'' @
     ''  "citation_quality": <score>\<newline>'' @
     ''}\<newline>'' @
     ''\<newline>'' @
     ''Document text to evaluate:\<newline>'' @
     ''\<newline>'' @
     ''{text}''\<close>

text \<open>\<^verbatim>\<open>prompt = self.EVALUATION_PROMPT.format(text=chunk.text)\<close>\<close>

definition format_prompt :: "string \<Rightarrow> py_exception + string" where
  "format_prompt chunk_text = str_format EVALUATION_PROMPT [''text'' \<mapsto> chunk_text]"

text \<open>
  The remote service is outside the program. One call of
  \<^verbatim>\<open>client.chat.completions.create\<close> followed by \<^verbatim>\<open>json.loads\<close> of the content either
  yields a JSON value or raises; the \<open>client\<close> gives that result from the number of calls
  made before and the prompt. A JSON value is what \<^verbatim>\<open>json.loads\<close> returns: a dict from
  strings to values, a list, a str, an int, a float, a bool or \<^verbatim>\<open>None\<close>. The state records
  the calls made and the seconds slept, in order.
\<close>

datatype json =
    JObject "string \<Rightarrow> json option"
  | JArray "json list"
  | JString string
  | JInt int
  | JFloat real
  | JBool bool
  | JNull

datatype reply = Parsed json | Raised py_exception

type_synonym client = "nat \<Rightarrow> string \<Rightarrow> reply"

record world =
  calls :: nat
  slept :: "nat list"

fun type_name :: "json \<Rightarrow> string" where
  "type_name (JObject d) = ''dict''"
| "type_name (JArray xs) = ''list''"
| "type_name (JString s) = ''str''"
| "type_name (JInt i) = ''int''"
| "type_name (JFloat r) = ''float''"
| "type_name (JBool b) = ''bool''"
| "type_name JNull = ''NoneType''"

text \<open>
  \<^verbatim>\<open>from_dict\<close>: every field is \<^verbatim>\<open>data.get(key, 0.0)\<close>, whatever the value under the key
  is; no key is required and no other key is looked at.
\<close>

definition dict_get :: "(string \<Rightarrow> 'v option) \<Rightarrow> string \<Rightarrow> 'v \<Rightarrow> 'v" where
  "dict_get data key dflt = (case data key of Some v \<Rightarrow> v | None \<Rightarrow> dflt)"

definition from_dict :: "(string \<Rightarrow> json option) \<Rightarrow> json DocumentEvaluation" where
  "from_dict data =
     \<lparr>relevance = dict_get data ''relevance'' (JFloat 0),
      factual_accuracy = dict_get data ''factual_accuracy'' (JFloat 0),
      clarity = dict_get data ''clarity'' (JFloat 0),
      hallucination = dict_get data ''hallucination'' (JFloat 0),
      style_match = dict_get data ''style_match'' (JFloat 0),
      rag_usability = dict_get data ''rag_usability'' (JFloat 0),
      citation_quality = dict_get data ''citation_quality'' (JFloat 0)\<rparr>"

text \<open>
  \<^verbatim>\<open>DocumentEvaluation.from_dict(data)\<close> on the parsed value: \<^verbatim>\<open>data.get\<close> exists on a dict
  only; on any other value the attribute lookup raises AttributeError, whose message
  names the type in single quotes.
\<close>

definition quoted :: "string \<Rightarrow> string" where
  "quoted s = [CHR 0x27] @ s @ [CHR 0x27]"

fun parse_evaluation :: "json \<Rightarrow> py_exception + json DocumentEvaluation" where
  "parse_evaluation (JObject d) = Inr (from_dict d)"
| "parse_evaluation j =
     Inl (AttributeError (quoted (type_name j) @ '' object has no attribute '' @ quoted ''get''))"

text \<open>
  The \<^verbatim>\<open>except\<close> clauses of \<^verbatim>\<open>evaluate_chunk\<close>, in their order: \<open>Inl n\<close> is
  \<^verbatim>\<open>time.sleep(n); continue\<close>, and \<open>Inr e\<close> is \<^verbatim>\<open>raise e\<close>.
\<close>

definition retry_message :: "string \<Rightarrow> int \<Rightarrow> string \<Rightarrow> string" where
  "retry_message what max_retries detail =
     what @ '' after '' @ str_int max_retries @ '' retries: '' @ detail"

fun on_exception :: "int \<Rightarrow> nat \<Rightarrow> py_exception \<Rightarrow> nat + py_exception" where
  "on_exception max_retries attempt (RateLimitError m) =
     (if int attempt < max_retries - 1 then Inl (2 ^ attempt)
      else Inr (Exception (retry_message ''Rate limit exceeded'' max_retries m)))"
| "on_exception max_retries attempt (APITimeoutError m) =
     (if int attempt < max_retries - 1 then Inl 1
      else Inr (Exception (retry_message ''API timeout'' max_retries m)))"
| "on_exception max_retries attempt (APIError m) =
     (if int attempt < max_retries - 1 then Inl 1
      else Inr (Exception (retry_message ''API error'' max_retries m)))"
| "on_exception max_retries attempt (JSONDecodeError m) =
     (if int attempt < max_retries - 1 then Inl 1
      else Inr (Exception (retry_message ''API error'' max_retries m)))"
| "on_exception max_retries attempt e =
     Inr (Exception (''Unexpected error during evaluation: '' @ str_exc e))"

text \<open>
  The \<^verbatim>\<open>try\<close> block of one pass of \<^verbatim>\<open>for attempt in range(self.max_retries)\<close>: what
  it raises, or the evaluation it returns.
\<close>

definition try_call ::
  "client \<Rightarrow> string \<Rightarrow> world \<Rightarrow> py_exception + json DocumentEvaluation" where
  "try_call client prompt w =
     (case client (calls w) prompt of
        Raised e \<Rightarrow> Inl e
      | Parsed data \<Rightarrow> parse_evaluation data)"

text \<open>
  The loop over the remaining values of \<^verbatim>\<open>attempt\<close>; \<open>Inr None\<close> is the
  \<^verbatim>\<open>return None\<close> after the loop.
\<close>

fun attempts ::
  "int \<Rightarrow> client \<Rightarrow> string \<Rightarrow> nat list \<Rightarrow> world \<Rightarrow>
   (py_exception + json DocumentEvaluation option) \<times> world" where
  "attempts max_retries client prompt [] w = (Inr None, w)"
| "attempts max_retries client prompt (attempt # rest) w =
     (let w1 = w\<lparr>calls := calls w + 1\<rparr> in
      case try_call client prompt w of
        Inr evaluation \<Rightarrow> (Inr (Some evaluation), w1)
      | Inl e \<Rightarrow>
          (case on_exception max_retries attempt e of
             Inl seconds \<Rightarrow>
               attempts max_retries client prompt rest (w1\<lparr>slept := slept w1 @ [seconds]\<rparr>)
           | Inr e' \<Rightarrow> (Inl e', w1)))"

definition evaluate_chunk ::
  "int \<Rightarrow> client \<Rightarrow> DocumentChunk \<Rightarrow> world \<Rightarrow>
   (py_exception + json DocumentEvaluation option) \<times> world" where
  "evaluate_chunk max_retries client chunk w =
     (case format_prompt (text_str chunk) of
        Inl e \<Rightarrow> (Inl e, w)
      | Inr prompt \<Rightarrow> attempts max_retries client prompt [0..<nat max_retries] w)"

text \<open>
  The loop of \<^verbatim>\<open>evaluate_chunks\<close>. It calls the method \<^verbatim>\<open>self.evaluate_chunk\<close>, here
  the parameter \<open>self_evaluate_chunk\<close>: an exception of that call is caught and the chunk is
  left out (the warning it prints is not modelled); an evaluation that is not \<^verbatim>\<open>None\<close> is
  appended with the chunk's token count.
\<close>

fun evaluate_each_with ::
  "(DocumentChunk \<Rightarrow> world \<Rightarrow> (py_exception + 'e option) \<times> world) \<Rightarrow>
   DocumentChunk list \<Rightarrow> ('e \<times> int) list \<Rightarrow> world \<Rightarrow> ('e \<times> int) list \<times> world" where
  "evaluate_each_with self_evaluate_chunk [] evaluations_with_weights w =
     (evaluations_with_weights, w)"
| "evaluate_each_with self_evaluate_chunk (chunk # chunks) evaluations_with_weights w =
     (case self_evaluate_chunk chunk w of
        (Inr (Some evaluation), w') \<Rightarrow>
          evaluate_each_with self_evaluate_chunk chunks
            (evaluations_with_weights @ [(evaluation, int (token_count chunk))]) w'
      | (Inr None, w') \<Rightarrow> evaluate_each_with self_evaluate_chunk chunks evaluations_with_weights w'
      | (Inl e, w') \<Rightarrow> evaluate_each_with self_evaluate_chunk chunks evaluations_with_weights w')"

text \<open>
  \<^verbatim>\<open>weighted_average\<close> on evaluations as \<^verbatim>\<open>from_dict\<close> built them. An int, a float and a
  bool are numbers (\<^verbatim>\<open>True\<close> is 1). The two guards come first. Then the loops compute
  \<^verbatim>\<open>weighted_sums[key] += getattr(evaluation, key) * weight\<close> evaluation by evaluation and
  key by key: the first value that is not a number raises TypeError (in the product for a
  dict or \<^verbatim>\<open>None\<close>, in the sum for a str or a list). With numbers only, the result is
  \<open>weighted_average\<close> of the numbers.
\<close>

fun number_of :: "json \<Rightarrow> real option" where
  "number_of (JInt i) = Some (real_of_int i)"
| "number_of (JFloat r) = Some r"
| "number_of (JBool b) = Some (if b then 1 else 0)"
| "number_of j = None"

definition is_number :: "json \<Rightarrow> bool" where
  "is_number j \<longleftrightarrow> number_of j \<noteq> None"

definition field_values :: "'v DocumentEvaluation \<Rightarrow> 'v list" where
  "field_values e =
     [relevance e, factual_accuracy e, clarity e, hallucination e, style_match e,
      rag_usability e, citation_quality e]"

definition number_or_zero :: "json \<Rightarrow> real" where
  "number_or_zero j = (case number_of j of Some r \<Rightarrow> r | None \<Rightarrow> 0)"

definition as_score :: "json DocumentEvaluation \<Rightarrow> real DocumentEvaluation" where
  "as_score e =
     \<lparr>relevance = number_or_zero (relevance e),
      factual_accuracy = number_or_zero (factual_accuracy e),
      clarity = number_or_zero (clarity e),
      hallucination = number_or_zero (hallucination e),
      style_match = number_or_zero (style_match e),
      rag_usability = number_or_zero (rag_usability e),
      citation_quality = number_or_zero (citation_quality e)\<rparr>"

fun operand_error :: "json \<Rightarrow> string" where
  "operand_error (JString s) =
     ''unsupported operand type(s) for +=: '' @ quoted ''float'' @ '' and '' @ quoted ''str''"
| "operand_error (JArray xs) =
     ''unsupported operand type(s) for +=: '' @ quoted ''float'' @ '' and '' @ quoted ''list''"
| "operand_error j =
     ''unsupported operand type(s) for *: '' @ quoted (type_name j) @ '' and '' @ quoted ''int''"

definition weighted_average_of_values ::
  "(json DocumentEvaluation \<times> int) list \<Rightarrow> py_exception + real DocumentEvaluation" where
  "weighted_average_of_values evaluations =
     (if evaluations = [] then Inr zero_evaluation
      else if sum_list (map snd evaluations) = 0 then Inr zero_evaluation
      else
        (case find (\<lambda>v. \<not> is_number v)
                (concat (map (\<lambda>ew. field_values (fst ew)) evaluations)) of
           Some v \<Rightarrow> Inl (TypeError (operand_error v))
         | None \<Rightarrow> Inr (weighted_average (map (\<lambda>ew. (as_score (fst ew), snd ew)) evaluations))))"

text \<open>
  \<^verbatim>\<open>evaluate_chunks\<close> for a given \<^verbatim>\<open>self.evaluate_chunk\<close>, and with the method of the
  class.
\<close>

definition evaluate_chunks_with ::
  "(DocumentChunk \<Rightarrow> world \<Rightarrow> (py_exception + json DocumentEvaluation option) \<times> world) \<Rightarrow>
   DocumentChunk list \<Rightarrow> world \<Rightarrow> (py_exception + real DocumentEvaluation) \<times> world" where
  "evaluate_chunks_with self_evaluate_chunk chunks w =
     (case evaluate_each_with self_evaluate_chunk chunks [] w of
        (evaluations_with_weights, w') \<Rightarrow>
          if evaluations_with_weights = []
          then (Inl (Exception ''Failed to evaluate any chunks in the document''), w')
          else (weighted_average_of_values evaluations_with_weights, w'))"

definition evaluate_chunks ::
  "int \<Rightarrow> client \<Rightarrow> DocumentChunk list \<Rightarrow> world \<Rightarrow>
   (py_exception + real DocumentEvaluation) \<times> world" where
  "evaluate_chunks max_retries client =
     evaluate_chunks_with (evaluate_chunk max_retries client)"

section \<open>Results and the CSV row (src/src/output.py)\<close>

record EvaluationResult =
  filename :: string
  evaluation :: "real DocumentEvaluation option"
  status :: string
  error_message :: "string option"

text \<open>
  A cell of a row is a string or a number (the int \<^verbatim>\<open>0\<close> and the float \<^verbatim>\<open>0.0\<close> are the
  same number here). A dict is a list of pairs in insertion order; \<^verbatim>\<open>d[k] = v\<close> is
  \<open>AList.update\<close> and \<^verbatim>\<open>d.update(other)\<close> stores the pairs of \<open>other\<close> one by one.
\<close>

datatype cell = Str string | Num real

definition dict_update ::
  "(string \<times> cell) list \<Rightarrow> (string \<times> cell) list \<Rightarrow> (string \<times> cell) list" where
  "dict_update d other = foldl (\<lambda>acc kv. AList.update (fst kv) (snd kv) acc) d other"

definition to_flat_dict :: "EvaluationResult \<Rightarrow> (string \<times> cell) list" where
  "to_flat_dict r =
     (let result = [(''filename'', Str (filename r))];
          result = (case evaluation r of
                      Some e \<Rightarrow> dict_update result (map (\<lambda>(k, v). (k, Num v)) (to_dict e))
                    | None \<Rightarrow>
                        dict_update result
                          [(''relevance'', Num 0),
                           (''factual_accuracy'', Num 0),
                           (''clarity'', Num 0),
                           (''hallucination'', Num 0),
                           (''style_match'', Num 0),
                           (''rag_usability'', Num 0),
                           (''citation_quality'', Num 0)]);
          result = AList.update ''status'' (Str (status r)) result;
          result = AList.update ''error_message''
                     (Str (case error_message r of None \<Rightarrow> [] | Some m \<Rightarrow> m)) result
      in result)"

definition FIELDNAMES :: "string list" where
  "FIELDNAMES = [''filename'', ''relevance'', ''factual_accuracy'', ''clarity'',
     ''hallucination'', ''style_match'', ''rag_usability'', ''citation_quality'',
     ''status'', ''error_message'']"

text \<open>
  \<^verbatim>\<open>csv.DictWriter.writerow\<close> with the default \<^verbatim>\<open>extrasaction='raise'\<close> and
  \<^verbatim>\<open>restval=''\<close>: a key outside the field names raises ValueError (its message goes
  on to list those keys); otherwise the row is the values in the order of the field
  names. Writing the cells out as text is the csv module's.
\<close>

definition dict_to_list ::
  "string list \<Rightarrow> (string \<times> cell) list \<Rightarrow> py_exception + cell list" where
  "dict_to_list fieldnames rowdict =
     (if \<exists>k \<in> set (map fst rowdict). k \<notin> set fieldnames
      then Inl (ValueError ''dict contains fields not in fieldnames'')
      else Inr (map (\<lambda>k. case map_of rowdict k of Some c \<Rightarrow> c | None \<Rightarrow> Str []) fieldnames))"

text \<open>
  The rows that \<^verbatim>\<open>CSVFormatter.format\<close> writes after the header; the first row that
  raises ends it.
\<close>

fun csv_rows :: "EvaluationResult list \<Rightarrow> py_exception + cell list list" where
  "csv_rows [] = Inr []"
| "csv_rows (result # results) =
     (case dict_to_list FIELDNAMES (to_flat_dict result) of
        Inl e \<Rightarrow> Inl e
      | Inr row \<Rightarrow> (case csv_rows results of Inl e \<Rightarrow> Inl e | Inr rows \<Rightarrow> Inr (row # rows)))"

section \<open>The segmenter (src/src/document_parser.py)\<close>

text \<open>
  The tokenizer is tiktoken's, outside the program: \<^verbatim>\<open>count_tokens\<close> is a parameter
  \<open>count_tokens :: string \<Rightarrow> nat\<close> of everything below, and \<open>max_tokens_per_chunk\<close> is
  the budget, a Python int. The state of the loop of \<^verbatim>\<open>chunk_text\<close> is its three
  variables.
\<close>

record segmenter =
  chunks :: "string list"
  current_chunk :: "string list"
  current_tokens :: nat

text \<open>
  \<^verbatim>\<open>chunks.append('\n\n'.join(current_chunk)); current_chunk = []; current_tokens = 0\<close>
  and the same with \<^verbatim>\<open>'. '.join(current_chunk) + '.'\<close>.
\<close>

definition save_paragraphs :: "segmenter \<Rightarrow> segmenter" where
  "save_paragraphs st =
     st\<lparr>chunks := chunks st @ [join ''\<newline>\<newline>'' (current_chunk st)],
        current_chunk := [], current_tokens := 0\<rparr>"

definition save_sentences :: "segmenter \<Rightarrow> segmenter" where
  "save_sentences st =
     st\<lparr>chunks := chunks st @ [join ''. '' (current_chunk st) @ ''.''],
        current_chunk := [], current_tokens := 0\<rparr>"

text \<open>The body of \<^verbatim>\<open>for sentence in sentences\<close>.\<close>

definition add_sentence :: "(string \<Rightarrow> nat) \<Rightarrow> int \<Rightarrow> segmenter \<Rightarrow> string \<Rightarrow> segmenter" where
  "add_sentence count_tokens max_tokens_per_chunk st sentence0 =
     (let sentence = strip sentence0 in
      if sentence = [] then st
      else
        let sentence_tokens = count_tokens sentence;
            st1 = (if int (current_tokens st + sentence_tokens) > max_tokens_per_chunk
                   then (if current_chunk st \<noteq> [] then save_sentences st else st)
                   else st)
        in st1\<lparr>current_chunk := current_chunk st1 @ [sentence],
               current_tokens := current_tokens st1 + sentence_tokens\<rparr>)"

text \<open>The body of \<^verbatim>\<open>for para in paragraphs\<close>.\<close>

definition add_paragraph :: "(string \<Rightarrow> nat) \<Rightarrow> int \<Rightarrow> segmenter \<Rightarrow> string \<Rightarrow> segmenter" where
  "add_paragraph count_tokens max_tokens_per_chunk st para =
     (let para_tokens = count_tokens para in
      if int para_tokens > max_tokens_per_chunk then
        foldl (add_sentence count_tokens max_tokens_per_chunk)
          (if current_chunk st \<noteq> [] then save_paragraphs st else st)
          (split_on ''. '' para)
      else
        let st1 = (if int (current_tokens st + para_tokens) > max_tokens_per_chunk
                   then (if current_chunk st \<noteq> [] then save_paragraphs st else st)
                   else st)
        in st1\<lparr>current_chunk := current_chunk st1 @ [para],
               current_tokens := current_tokens st1 + para_tokens\<rparr>)"

text \<open>
  After the loop: the remaining items are joined with a blank line when the first of
  them holds no newline, and with a period and a space otherwise.
\<close>

definition final_chunks :: "segmenter \<Rightarrow> string list" where
  "final_chunks st =
     (if current_chunk st \<noteq> [] then
        chunks st @
          [if CHR 0x0A \<notin> set (hd (current_chunk st))
           then join ''\<newline>\<newline>'' (current_chunk st)
           else join ''. '' (current_chunk st)]
      else chunks st)"

definition split_chunks :: "(string \<Rightarrow> nat) \<Rightarrow> int \<Rightarrow> string \<Rightarrow> string list" where
  "split_chunks count_tokens max_tokens_per_chunk text =
     final_chunks
       (foldl (add_paragraph count_tokens max_tokens_per_chunk)
          \<lparr>chunks = [], current_chunk = [], current_tokens = 0\<rparr>
          (split_on ''\<newline>\<newline>'' text))"

definition chunk_text :: "(string \<Rightarrow> nat) \<Rightarrow> int \<Rightarrow> string \<Rightarrow> DocumentChunk list" where
  "chunk_text count_tokens max_tokens_per_chunk text =
     (let total_tokens = count_tokens text in
      if int total_tokens \<le> max_tokens_per_chunk then
        [\<lparr>text_str = text, token_count = total_tokens, chunk_index = 0, total_chunks = 1\<rparr>]
      else
        let texts = split_chunks count_tokens max_tokens_per_chunk text;
            total = length texts
        in map (\<lambda>(i, t).
                  \<lparr>text_str = t, token_count = count_tokens t,
                   chunk_index = i, total_chunks = total\<rparr>)
               (enumerate 0 texts))"

section \<open>One document (src/main.py)\<close>

text \<open>
  \<^verbatim>\<open>evaluate_document(doc_path, parser, evaluator)\<close>: \<open>extracted\<close> is what
  \<^verbatim>\<open>extract_text\<close> returned or raised (reading the file is outside the model), the
  parser's tokenizer and budget are \<open>count_tokens\<close> and \<open>max_tokens_per_chunk\<close>, and
  \<open>evaluator_evaluate_chunks\<close> is the method of the evaluator that was passed. Every exception ends
  in a result with status \<^verbatim>\<open>'error'\<close>.
\<close>

definition evaluate_document_with ::
  "(string \<Rightarrow> nat) \<Rightarrow> int \<Rightarrow>
   (DocumentChunk list \<Rightarrow> world \<Rightarrow> (py_exception + real DocumentEvaluation) \<times> world) \<Rightarrow>
   string \<Rightarrow> py_exception + string \<Rightarrow> world \<Rightarrow> EvaluationResult \<times> world" where
  "evaluate_document_with count_tokens max_tokens_per_chunk evaluator_evaluate_chunks doc_path
     extracted w =
     (case extracted of
        Inl e \<Rightarrow>
          (\<lparr>filename = doc_path, evaluation = None, status = ''error'',
            error_message = Some (str_exc e)\<rparr>, w)
      | Inr text \<Rightarrow>
          (case evaluator_evaluate_chunks (chunk_text count_tokens max_tokens_per_chunk text) w of
             (Inr composite, w') \<Rightarrow>
               (\<lparr>filename = doc_path, evaluation = Some composite, status = ''success'',
                 error_message = None\<rparr>, w')
           | (Inl e, w') \<Rightarrow>
               (\<lparr>filename = doc_path, evaluation = None, status = ''error'',
                 error_message = Some (str_exc e)\<rparr>, w')))"

text \<open>The same with the evaluator of the class: \<^verbatim>\<open>LLMEvaluator\<close> with its retry count and client.\<close>

definition evaluate_document ::
  "(string \<Rightarrow> nat) \<Rightarrow> int \<Rightarrow> int \<Rightarrow> client \<Rightarrow> string \<Rightarrow> py_exception + string \<Rightarrow> world \<Rightarrow>
   EvaluationResult \<times> world" where
  "evaluate_document count_tokens max_tokens_per_chunk max_retries client =
     evaluate_document_with count_tokens max_tokens_per_chunk (evaluate_chunks max_retries client)"

section \<open>Inputs for the examples\<close>

text \<open>A tokenizer for the examples: one token per character.\<close>

definition char_tokens :: "string \<Rightarrow> nat" where
  "char_tokens s = length s"

section \<open>Definitions used in the statements and proofs\<close>

text \<open>A character that is not a brace, and the two brace-free stretches of the prompt.\<close>

definition plain :: "char \<Rightarrow> bool" where
  "plain c \<longleftrightarrow> c \<noteq> CHR ''{'' \<and> c \<noteq> CHR ''}''"

definition prompt_head :: string where
  \<open>prompt_head =
     ''You are an expert evaluator assessing document quality for use with Large Language Models (LLMs) and Retrieval-Augmented Generation (RAG) systems.\<newline>'' @
     ''\<newline>'' @
     ''Evaluate the following document text on these criteria (score 0-5 for each):\<newline>'' @
     ''\<newline>'' @
     ''1. **Relevance** (0-5): How relevant and focused is the content? Does it stay on topic?\<newline>'' @
     ''2. **Factual Accuracy** (0-5): Does the content appear factually accurate and well-researched?\<newline>'' @
     ''3. **Clarity** (0-5): Is the writing clear, well-structured, and easy to understand?\<newline>'' @
     ''4. **Hallucination Risk** (0-5): How likely is this content to cause LLM hallucinations? (0=very likely, 5=very unlikely)\<newline>'' @
     ''5. **Style Match** (0-5): Is the writing style consistent and professional?\<newline>'' @
     ''6. **RAG Usability** (0-5): How useful would this be as context for a RAG system? Is it well-structured for retrieval?\<newline>'' @
     ''7. **Citation Quality** (0-5): Are sources, references, and citations properly included and formatted?\<newline>'' @
     ''\<newline>'' @
     ''Respond ONLY with a JSON object in this exact format:\<newline>''\<close>

definition prompt_spec :: string where
  \<open>prompt_spec =
     '' <score>,\<newline>'' @
     ''  "factual_accuracy": <score>,\<newline>'' @
     ''  "clarity": <score>,\<newline>'' @
     ''  "hallucination": <score>,\<newline>'' @
     ''  "style_match": <score>,\<newline>'' @
     ''  "rag_usability": <score>,\<newline>'' @
     ''  "citation_quality": <score>\<newline>''\<close>

text \<open>
  What each chunk's evaluation gave in a run of the loop of \<^verbatim>\<open>evaluate_chunks\<close>, in order
  (for a given \<^verbatim>\<open>self.evaluate_chunk\<close>, and for the method of the class), and the sample
  that a chunk contributes: none unless its evaluation returned one.
\<close>

fun outcomes_with ::
  "(DocumentChunk \<Rightarrow> world \<Rightarrow> (py_exception + 'e option) \<times> world) \<Rightarrow>
   DocumentChunk list \<Rightarrow> world \<Rightarrow> (DocumentChunk \<times> (py_exception + 'e option)) list" where
  "outcomes_with self_evaluate_chunk [] w = []"
| "outcomes_with self_evaluate_chunk (chunk # cs) w =
     (chunk, fst (self_evaluate_chunk chunk w)) #
     outcomes_with self_evaluate_chunk cs (snd (self_evaluate_chunk chunk w))"

definition chunk_outcomes ::
  "int \<Rightarrow> client \<Rightarrow> DocumentChunk list \<Rightarrow> world \<Rightarrow>
   (DocumentChunk \<times> (py_exception + json DocumentEvaluation option)) list" where
  "chunk_outcomes max_retries client = outcomes_with (evaluate_chunk max_retries client)"

fun sample_of :: "DocumentChunk \<times> (py_exception + 'e option) \<Rightarrow> ('e \<times> int) list" where
  "sample_of (chunk, Inr (Some e)) = [(e, int (token_count chunk))]"
| "sample_of (chunk, Inr None) = []"
| "sample_of (chunk, Inl x) = []"

definition succeeded :: "DocumentChunk \<times> (py_exception + 'e option) \<Rightarrow> bool" where
  "succeeded outcome \<longleftrightarrow> sample_of outcome \<noteq> []"

text \<open>
  A chunk's evaluation failed when it raised or returned \<^verbatim>\<open>None\<close>; it gave a score when it
  returned an evaluation whose seven values are numbers, and the score is those numbers.
\<close>

definition failed :: "DocumentChunk \<times> (py_exception + 'e option) \<Rightarrow> bool" where
  "failed outcome \<longleftrightarrow> sample_of outcome = []"

fun scored :: "DocumentChunk \<times> (py_exception + json DocumentEvaluation option) \<Rightarrow> bool" where
  "scored (chunk, Inr (Some e)) = list_all is_number (field_values e)"
| "scored (chunk, Inr None) = False"
| "scored (chunk, Inl x) = False"


text \<open>Inputs for the examples.\<close>

definition always_rate_limited :: client where
  "always_rate_limited = (\<lambda>n prompt. Raised (RateLimitError ''Too Many Requests''))"




definition fresh :: world where
  "fresh = \<lparr>calls = 0, slept = []\<rparr>"

section \<open>The units behind the chunks\<close>

text \<open>
  The units the segmenter works with: a paragraph within the budget is one unit, a
  paragraph over the budget gives its stripped non-empty sentences.
\<close>

definition units_of :: "(string \<Rightarrow> nat) \<Rightarrow> int \<Rightarrow> string \<Rightarrow> string list" where
  "units_of count_tokens budget para =
     (if int (count_tokens para) > budget
      then filter (\<lambda>s. s \<noteq> []) (map strip (split_on ''. '' para))
      else [para])"

definition source_units :: "(string \<Rightarrow> nat) \<Rightarrow> int \<Rightarrow> string \<Rightarrow> string list" where
  "source_units count_tokens budget text =
     concat (map (units_of count_tokens budget) (split_on ''\<newline>\<newline>'' text))"

text \<open>
  The runs of units behind the chunks: the loop of \<^verbatim>\<open>chunk_text\<close> again, keeping each
  saved \<^verbatim>\<open>current_chunk\<close> as a list instead of joining it.
\<close>

record runs =
  saved :: "string list list"
  pending :: "string list"
  pending_tokens :: nat

definition add_unit :: "(string \<Rightarrow> nat) \<Rightarrow> int \<Rightarrow> runs \<Rightarrow> string \<Rightarrow> runs" where
  "add_unit count_tokens budget g u =
     (if int (pending_tokens g + count_tokens u) > budget \<and> pending g \<noteq> []
      then \<lparr>saved = saved g @ [pending g], pending = [u], pending_tokens = count_tokens u\<rparr>
      else g\<lparr>pending := pending g @ [u], pending_tokens := pending_tokens g + count_tokens u\<rparr>)"

definition close_run :: "runs \<Rightarrow> runs" where
  "close_run g =
     (if pending g \<noteq> [] then \<lparr>saved = saved g @ [pending g], pending = [], pending_tokens = 0\<rparr>
      else g)"

definition run_sentence :: "(string \<Rightarrow> nat) \<Rightarrow> int \<Rightarrow> runs \<Rightarrow> string \<Rightarrow> runs" where
  "run_sentence count_tokens budget g sentence0 =
     (if strip sentence0 = [] then g else add_unit count_tokens budget g (strip sentence0))"

definition run_paragraph :: "(string \<Rightarrow> nat) \<Rightarrow> int \<Rightarrow> runs \<Rightarrow> string \<Rightarrow> runs" where
  "run_paragraph count_tokens budget g para =
     (if int (count_tokens para) > budget
      then foldl (run_sentence count_tokens budget) (close_run g) (split_on ''. '' para)
      else add_unit count_tokens budget g para)"

definition unit_runs :: "(string \<Rightarrow> nat) \<Rightarrow> int \<Rightarrow> string \<Rightarrow> string list list" where
  "unit_runs count_tokens budget text =
     saved (close_run (foldl (run_paragraph count_tokens budget)
              \<lparr>saved = [], pending = [], pending_tokens = 0\<rparr>
              (split_on ''\<newline>\<newline>'' text)))"

text \<open>A chunk text made from a run: its units joined in one of the three ways of the code.\<close>

definition joined_from :: "string \<Rightarrow> string list \<Rightarrow> bool" where
  "joined_from t run \<longleftrightarrow>
     run \<noteq> [] \<and>
     (t = join ''\<newline>\<newline>'' run \<or> t = join ''. '' run @ ''.'' \<or> t = join ''. '' run)"

text \<open>The non-blank paragraphs of a text, split the way the segmenter splits.\<close>

definition paragraphs_of :: "string \<Rightarrow> string list" where
  "paragraphs_of text = filter (\<lambda>p. strip p \<noteq> []) (split_on ''\<newline>\<newline>'' text)"

text \<open>The state of the loop and the runs agree: every saved chunk is a joined run.\<close>

definition same_run :: "segmenter \<Rightarrow> runs \<Rightarrow> bool" where
  "same_run st g \<longleftrightarrow>
     list_all2 joined_from (chunks st) (saved g) \<and>
     current_chunk st = pending g \<and> current_tokens st = pending_tokens g"

text \<open>The units taken so far.\<close>

definition all_units :: "runs \<Rightarrow> string list" where
  "all_units g = concat (saved g) @ pending g"

text \<open>
  The same when every saved chunk is its run joined with a blank line and no pending
  paragraph holds a newline.
\<close>

definition blank_line_run :: "segmenter \<Rightarrow> runs \<Rightarrow> bool" where
  "blank_line_run st g \<longleftrightarrow>
     chunks st = map (join ''\<newline>\<newline>'') (saved g) \<and>
     current_chunk st = pending g \<and> current_tokens st = pending_tokens g \<and>
     list_all (\<lambda>run. run \<noteq> []) (saved g) \<and>
     list_all (\<lambda>p. CHR 0x0A \<notin> set p) (pending g)"

text \<open>
  A run fits when it is a single unit (or empty) or the token counts of its units sum to
  the budget at most.
\<close>

definition fits :: "(string \<Rightarrow> nat) \<Rightarrow> int \<Rightarrow> string list \<Rightarrow> bool" where
  "fits count_tokens budget run \<longleftrightarrow>
     length run \<le> 1 \<or> int (sum_list (map count_tokens run)) \<le> budget"

text \<open>Every run fits, and the running count is the sum over the pending units.\<close>

definition bounded_runs :: "(string \<Rightarrow> nat) \<Rightarrow> int \<Rightarrow> runs \<Rightarrow> bool" where
  "bounded_runs count_tokens budget g \<longleftrightarrow>
     list_all (fits count_tokens budget) (saved g) \<and>
     fits count_tokens budget (pending g) \<and>
     pending_tokens g = sum_list (map count_tokens (pending g))"

section \<open>Aggregation: proofs\<close>

lemma add_weighted_other:
  "k \<noteq> key \<Longrightarrow> add_weighted e w ws key k = ws k"
  by (simp add: add_weighted_def split: option.splits)

lemma add_weighted_same:
  "ws key = Some s \<Longrightarrow> getattr e key = Some v \<Longrightarrow>
   add_weighted e w ws key key = Some (s + v * real_of_int w)"
  by (simp add: add_weighted_def)

lemma add_weighted_at:
  "add_weighted e w ws k k =
     (case (ws k, getattr e k) of
        (Some s, Some v) \<Rightarrow> Some (s + v * real_of_int w)
      | _ \<Rightarrow> ws k)"
  by (simp add: add_weighted_def split: option.splits)

lemma foldl_add_weighted:
  "distinct keys \<Longrightarrow>
   foldl (add_weighted e w) ws keys k =
     (if k \<in> set keys then add_weighted e w ws k k else ws k)"
proof (induction keys arbitrary: ws)
  case Nil
  then show ?case by simp
next
  case (Cons key keys)
  show ?case
  proof (cases "k = key")
    case True
    with Cons show ?thesis by simp
  next
    case False
    then have "add_weighted e w ws key k = ws k"
      by (rule add_weighted_other)
    with False Cons show ?thesis
      by (auto simp: add_weighted_at split: option.splits)
  qed
qed

lemma distinct_score_keys: "distinct score_keys"
  by (simp add: score_keys_def)

lemma accumulate_at:
  assumes "k \<in> set score_keys" and "ws k = Some s" and "getattr (fst ew) k = Some v"
  shows "accumulate ws ew k = Some (s + v * real_of_int (snd ew))"
  using assms
  by (simp add: accumulate_def foldl_add_weighted [OF distinct_score_keys] add_weighted_at)

lemma foldl_accumulate_at:
  assumes "k \<in> set score_keys" and "\<And>e. getattr e k = Some (dimension e)"
  shows "ws k = Some s \<Longrightarrow>
         foldl accumulate ws evaluations k =
           Some (s + (\<Sum>(e, w)\<leftarrow>evaluations. dimension e * real_of_int w))"
proof (induction evaluations arbitrary: ws s)
  case Nil
  then show ?case by simp
next
  case (Cons ew evaluations)
  obtain e w where ew: "ew = (e, w)"
    by (cases ew)
  have "accumulate ws ew k = Some (s + dimension e * real_of_int w)"
    using assms Cons.prems ew by (simp add: accumulate_at)
  then have "foldl accumulate (accumulate ws ew) evaluations k =
               Some (s + dimension e * real_of_int w +
                     (\<Sum>(e, w)\<leftarrow>evaluations. dimension e * real_of_int w))"
    by (rule Cons.IH)
  then show ?case
    by (simp add: ew add.assoc)
qed

lemma initial_sums_at: "k \<in> set score_keys \<Longrightarrow> initial_sums k = Some 0"
  by (auto simp: initial_sums_def score_keys_def)

lemma sum_over_total:
  assumes "k \<in> set score_keys" and "\<And>e. getattr e k = Some (dimension e)"
  shows "sum_over (foldl accumulate initial_sums evaluations) k
           (sum_list (map snd evaluations)) = weighted_mean dimension evaluations"
proof -
  have "foldl accumulate initial_sums evaluations k =
          Some (0 + (\<Sum>(e, w)\<leftarrow>evaluations. dimension e * real_of_int w))"
    using assms initial_sums_at by (intro foldl_accumulate_at) auto
  moreover have "(\<Sum>(e, w)\<leftarrow>evaluations. w) = sum_list (map snd evaluations)"
    by (simp add: case_prod_unfold)
  ultimately show ?thesis
    by (simp add: sum_over_def weighted_mean_def)
qed

text \<open>
  C9. For a non-empty list of samples with positive total weight, \<^verbatim>\<open>weighted_average\<close>
  computes every one of the seven dimensions as the sum of value times weight divided by
  the sum of the weights.
\<close>

theorem weighted_average_formula:
  assumes "evaluations \<noteq> []" and "0 < sum_list (map snd evaluations)"
  shows "weighted_average evaluations =
           \<lparr>relevance = weighted_mean relevance evaluations,
            factual_accuracy = weighted_mean factual_accuracy evaluations,
            clarity = weighted_mean clarity evaluations,
            hallucination = weighted_mean hallucination evaluations,
            style_match = weighted_mean style_match evaluations,
            rag_usability = weighted_mean rag_usability evaluations,
            citation_quality = weighted_mean citation_quality evaluations\<rparr>"
proof -
  have r1: "sum_over (foldl accumulate initial_sums evaluations) ''relevance''
              (sum_list (map snd evaluations)) = weighted_mean relevance evaluations"
    by (rule sum_over_total) (simp_all add: score_keys_def getattr_def)
  have r2: "sum_over (foldl accumulate initial_sums evaluations) ''factual_accuracy''
              (sum_list (map snd evaluations)) = weighted_mean factual_accuracy evaluations"
    by (rule sum_over_total) (simp_all add: score_keys_def getattr_def)
  have r3: "sum_over (foldl accumulate initial_sums evaluations) ''clarity''
              (sum_list (map snd evaluations)) = weighted_mean clarity evaluations"
    by (rule sum_over_total) (simp_all add: score_keys_def getattr_def)
  have r4: "sum_over (foldl accumulate initial_sums evaluations) ''hallucination''
              (sum_list (map snd evaluations)) = weighted_mean hallucination evaluations"
    by (rule sum_over_total) (simp_all add: score_keys_def getattr_def)
  have r5: "sum_over (foldl accumulate initial_sums evaluations) ''style_match''
              (sum_list (map snd evaluations)) = weighted_mean style_match evaluations"
    by (rule sum_over_total) (simp_all add: score_keys_def getattr_def)
  have r6: "sum_over (foldl accumulate initial_sums evaluations) ''rag_usability''
              (sum_list (map snd evaluations)) = weighted_mean rag_usability evaluations"
    by (rule sum_over_total) (simp_all add: score_keys_def getattr_def)
  have r7: "sum_over (foldl accumulate initial_sums evaluations) ''citation_quality''
              (sum_list (map snd evaluations)) = weighted_mean citation_quality evaluations"
    by (rule sum_over_total) (simp_all add: score_keys_def getattr_def)
  from assms show ?thesis
    by (simp add: weighted_average_def Let_def r1 r2 r3 r4 r5 r6 r7)
qed

text \<open>
  The example of C9: an all-5 score of weight 10 and an all-0 score of weight 30 give 1.25
  in every dimension.
\<close>

theorem weighted_average_formula_witness:
  "[(all_fives, 10), (zero_evaluation, 30)] \<noteq> [] \<and>
   0 < sum_list (map snd [(all_fives, 10), (zero_evaluation, 30 :: int)]) \<and>
   weighted_average [(all_fives, 10), (zero_evaluation, 30)] = all_quarters"
  using weighted_average_formula [of "[(all_fives, 10), (zero_evaluation, 30)]"]
  by (simp add: weighted_mean_def all_fives_def zero_evaluation_def all_quarters_def)

text \<open>
  C3, as stated, fails: on the empty list and on a list of total weight zero
  \<^verbatim>\<open>weighted_average\<close> returns the all-zero score; it raises nothing.
\<close>

theorem weighted_average_zeroed_counterexample:
  "weighted_average [] = zero_evaluation \<and> weighted_average [(all_fives, 0)] = zero_evaluation"
  by (simp add: weighted_average_def)

text \<open>
  C3, amended. When the list of samples is empty or the total weight is zero,
  \<^verbatim>\<open>weighted_average\<close> returns the all-zero score.
\<close>

theorem weighted_average_nothing_to_aggregate:
  "evaluations = [] \<or> sum_list (map snd evaluations) = 0 \<Longrightarrow>
   weighted_average evaluations = zero_evaluation"
  by (auto simp: weighted_average_def)

text \<open>An instance of the amended C3: two samples of weights 3 and -3.\<close>

theorem weighted_average_nothing_to_aggregate_witness:
  "([(all_fives, 3), (all_fives, -3)] = [] \<or>
    sum_list (map snd [(all_fives, 3), (all_fives, - 3 :: int)]) = 0) \<and>
   weighted_average [(all_fives, 3), (all_fives, -3)] = zero_evaluation"
  using weighted_average_nothing_to_aggregate [of "[(all_fives, 3), (all_fives, -3)]"]
  by simp

section \<open>The prompt cannot be formatted\<close>

lemma scan_literal_plain:
  "list_all plain pre \<Longrightarrow>
   fmt_scan kwargs Literal out (pre @ rest) = fmt_scan kwargs Literal (rev pre @ out) rest"
  by (induction pre arbitrary: out) (auto simp: plain_def)

lemma scan_spec_plain:
  "list_all plain s \<Longrightarrow>
   fmt_scan kwargs (Format_spec name conv count spec) out (s @ rest) =
   fmt_scan kwargs (Format_spec name conv count (rev s @ spec)) out rest"
  by (induction s arbitrary: spec) (auto simp: plain_def)

lemma prompt_split:
  \<open>EVALUATION_PROMPT =
     prompt_head @ ''{'' @ ''\<newline>'' @
     ''  "relevance"'' @ '':'' @ prompt_spec @ ''}'' @ ''\<newline>'' @
     ''\<newline>'' @
     ''Document text to evaluate:\<newline>'' @
     ''\<newline>'' @
     ''{text}''\<close>
  by (simp add: EVALUATION_PROMPT_def prompt_head_def prompt_spec_def)

lemma head_plain: "list_all plain prompt_head"
  by (simp add: prompt_head_def plain_def)

lemma spec_plain: "list_all plain prompt_spec"
  by (simp add: prompt_spec_def plain_def)

lemma format_prompt_raises: \<open>format_prompt t = Inl (KeyError (''\<newline>  "relevance"''))\<close>
  unfolding format_prompt_def str_format_def prompt_split
  by (simp add: scan_literal_plain [OF head_plain] scan_spec_plain [OF spec_plain]
        get_field_def is_position_def)

lemma evaluate_chunk_raises:
  \<open>evaluate_chunk max_retries client chunk w = (Inl (KeyError ''\<newline>  "relevance"''), w)\<close>
  by (simp add: evaluate_chunk_def format_prompt_raises)

section \<open>The retry loop and the loop over the chunks\<close>

lemma attempts_always_rate_limited:
  "attempts 3 always_rate_limited prompt [0..<nat 3] fresh =
     (Inl (Exception ''Rate limit exceeded after 3 retries: Too Many Requests''),
      \<lparr>calls = 3, slept = [1, 2]\<rparr>)"
  by (simp add: upt_rec try_call_def always_rate_limited_def fresh_def retry_message_def
        str_int_def str_nat.simps)

lemma evaluate_each_outcomes:
  "fst (evaluate_each_with ev cs acc w) = acc @ concat (map sample_of (outcomes_with ev cs w))"
proof (induction cs arbitrary: acc w)
  case Nil
  then show ?case by simp
next
  case (Cons chunk cs)
  obtain r w' where step: "ev chunk w = (r, w')"
    by (cases "ev chunk w")
  show ?case
  proof (cases r)
    case (Inl x)
    with step Cons.IH [of acc w'] show ?thesis by simp
  next
    case (Inr opt)
    show ?thesis
    proof (cases opt)
      case None
      with Inr step Cons.IH [of acc w'] show ?thesis by simp
    next
      case (Some e)
      with Inr step Cons.IH [of "acc @ [(e, int (token_count chunk))]" w'] show ?thesis by simp
    qed
  qed
qed

lemma evaluate_chunks_outcomes:
  "fst (evaluate_chunks_with ev cs w) =
     (let samples = concat (map sample_of (outcomes_with ev cs w)) in
      if samples = [] then Inl (Exception ''Failed to evaluate any chunks in the document'')
      else weighted_average_of_values samples)"
proof (cases "evaluate_each_with ev cs [] w")
  case (Pair samples w')
  with evaluate_each_outcomes [of ev cs "[]" w] show ?thesis
    by (simp add: evaluate_chunks_with_def)
qed

lemma no_sample_if_none_succeeded:
  "list_all (\<lambda>outcome. \<not> succeeded outcome) outcomes \<Longrightarrow>
   concat (map sample_of outcomes) = []"
  by (induction outcomes) (auto simp: succeeded_def)



lemma sample_of_scored:
  "failed outcome \<or> scored outcome \<Longrightarrow>
   sample_of outcome = (if scored outcome then sample_of outcome else [])"
  by (auto simp: failed_def)








text \<open>
  C6. When no chunk of a document gives an evaluation, \<^verbatim>\<open>evaluate_document\<close> returns a
  result with status \<^verbatim>\<open>'error'\<close>, no evaluation, and the message of the exception that
  \<^verbatim>\<open>evaluate_chunks\<close> raised; and whatever happens, it returns a result whose status
  is \<^verbatim>\<open>'success'\<close> or \<^verbatim>\<open>'error'\<close>.
\<close>

theorem all_chunks_failed_result:
  assumes "list_all (\<lambda>outcome. \<not> succeeded outcome)
             (chunk_outcomes max_retries client (chunk_text count_tokens budget text) w)"
  shows "fst (evaluate_document count_tokens budget max_retries client path (Inr text) w) =
           \<lparr>filename = path, evaluation = None, status = ''error'',
            error_message = Some ''Failed to evaluate any chunks in the document''\<rparr> \<and>
         status (fst (evaluate_document count_tokens budget max_retries client path extracted w))
           \<in> {''success'', ''error''}"
proof -
  let ?cs = "chunk_text count_tokens budget text"
  have "concat (map sample_of (outcomes_with (evaluate_chunk max_retries client) ?cs w)) = []"
    using assms unfolding chunk_outcomes_def by (rule no_sample_if_none_succeeded)
  then have "fst (evaluate_chunks max_retries client ?cs w) =
               Inl (Exception ''Failed to evaluate any chunks in the document'')"
    by (simp add: evaluate_chunks_def evaluate_chunks_outcomes)
  then have first: "fst (evaluate_document count_tokens budget max_retries client path (Inr text) w) =
           \<lparr>filename = path, evaluation = None, status = ''error'',
            error_message = Some ''Failed to evaluate any chunks in the document''\<rparr>"
    by (cases "evaluate_chunks max_retries client ?cs w")
       (simp add: evaluate_document_def evaluate_document_with_def)
  have "status (fst (evaluate_document count_tokens budget max_retries client path extracted w))
           \<in> {''success'', ''error''}"
    by (simp add: evaluate_document_def evaluate_document_with_def split: prod.splits sum.splits)
  with first show ?thesis by simp
qed

text \<open>An instance of C6: a one-chunk document and a service that always rate-limits.\<close>

theorem all_chunks_failed_result_witness:
  "list_all (\<lambda>outcome. \<not> succeeded outcome)
     (chunk_outcomes 3 always_rate_limited (chunk_text char_tokens 5 ''ab'') fresh) \<and>
   fst (evaluate_document char_tokens 5 3 always_rate_limited ''a.docx'' (Inr ''ab'') fresh) =
     \<lparr>filename = ''a.docx'', evaluation = None, status = ''error'',
      error_message = Some ''Failed to evaluate any chunks in the document''\<rparr> \<and>
   status (fst (evaluate_document char_tokens 5 3 always_rate_limited ''a.docx''
                  (Inl (ValueError ''Failed to parse Word document'')) fresh))
     \<in> {''success'', ''error''}"
proof -
  have h: "list_all (\<lambda>outcome. \<not> succeeded outcome)
     (chunk_outcomes 3 always_rate_limited (chunk_text char_tokens 5 ''ab'') fresh)"
    by (simp add: chunk_outcomes_def chunk_text_def char_tokens_def evaluate_chunk_raises
          succeeded_def)
  from all_chunks_failed_result [OF h] h show ?thesis by blast
qed

text \<open>
  C7. The claim: with a service that rate-limits every call and three attempts allowed,
  one chunk evaluation makes three calls, sleeps 1 and 2 seconds and then fails with the
  class and the detail. In the program \<^verbatim>\<open>evaluate_chunk\<close> raises KeyError while it
  formats the prompt: no call is made and nothing is slept.
\<close>

theorem evaluate_chunk_makes_no_call:
  \<open>evaluate_chunk 3 always_rate_limited chunk fresh =
     (Inl (KeyError ''\<newline>  "relevance"''), \<lparr>calls = 0, slept = []\<rparr>)\<close>
  by (simp add: evaluate_chunk_def format_prompt_raises fresh_def)

section \<open>Parsing the response\<close>

text \<open>
  C8, as stated, fails. In the retry loop a response that is an object with no key at all
  is accepted at the first call, every dimension being 0.0; so is an object with a string
  under one dimension and a key that is no dimension; and a response that is a JSON list
  is not retried: the exception is raised at once.
\<close>

theorem defaults_accepted_counterexample:
  "attempts 3 (\<lambda>n prompt. Parsed (JObject Map.empty)) ''prompt'' [0, 1, 2] fresh =
     (Inr (Some \<lparr>relevance = JFloat 0, factual_accuracy = JFloat 0, clarity = JFloat 0,
                 hallucination = JFloat 0, style_match = JFloat 0, rag_usability = JFloat 0,
                 citation_quality = JFloat 0\<rparr>),
      \<lparr>calls = 1, slept = []\<rparr>) \<and>
   attempts 3
     (\<lambda>n prompt. Parsed (JObject [''clarity'' \<mapsto> JString ''high'', ''verdict'' \<mapsto> JInt 1]))
     ''prompt'' [0, 1, 2] fresh =
     (Inr (Some \<lparr>relevance = JFloat 0, factual_accuracy = JFloat 0, clarity = JString ''high'',
                 hallucination = JFloat 0, style_match = JFloat 0, rag_usability = JFloat 0,
                 citation_quality = JFloat 0\<rparr>),
      \<lparr>calls = 1, slept = []\<rparr>) \<and>
   attempts 3 (\<lambda>n prompt. Parsed (JArray [])) ''prompt'' [0, 1, 2] fresh =
     (Inl (Exception (''Unexpected error during evaluation: '' @ quoted ''list'' @
                      '' object has no attribute '' @ quoted ''get'')),
      \<lparr>calls = 1, slept = []\<rparr>)"
  by (simp add: try_call_def from_dict_def dict_get_def fresh_def)

lemma getattr_from_dict:
  "k \<in> set score_keys \<Longrightarrow> getattr (from_dict d) k = Some (dict_get d k (JFloat 0))"
  by (auto simp: score_keys_def getattr_def from_dict_def)

lemma attempts_returns:
  "try_call client prompt w = Inr e \<Longrightarrow>
   attempts max_retries client prompt (attempt # rest) w =
     (Inr (Some e), w\<lparr>calls := calls w + 1\<rparr>)"
  by simp

lemma attempts_sleeps:
  "try_call client prompt w = Inl x \<Longrightarrow> on_exception max_retries attempt x = Inl seconds \<Longrightarrow>
   attempts max_retries client prompt (attempt # rest) w =
     attempts max_retries client prompt rest
       (w\<lparr>calls := calls w + 1, slept := slept w @ [seconds]\<rparr>)"
  by simp

lemma attempts_raises:
  "try_call client prompt w = Inl x \<Longrightarrow> on_exception max_retries attempt x = Inr x' \<Longrightarrow>
   attempts max_retries client prompt (attempt # rest) w = (Inl x', w\<lparr>calls := calls w + 1\<rparr>)"
  by simp

text \<open>
  C8, amended, for one pass of the retry loop at attempt number \<open>attempt\<close>. A response that
  parses to a JSON object is accepted at once, whatever its keys and values: each of the
  seven fields is the value under its key, of any JSON type, or 0.0 when the key is
  missing, and no other key matters. Content that does not parse (JSONDecodeError) is
  retried while attempts remain: the loop sleeps one second and makes the next call, whose
  object it then returns; on the last attempt it raises \<^verbatim>\<open>API error after N retries\<close> with
  the detail. A JSON value that is not an object raises AttributeError, which is raised
  again at once as \<^verbatim>\<open>Unexpected error during evaluation\<close>, without a retry.
\<close>

theorem object_accepted_as_it_is:
  "(client (calls w) prompt = Parsed (JObject d) \<longrightarrow>
      attempts max_retries client prompt (attempt # rest) w =
        (Inr (Some (from_dict d)), w\<lparr>calls := calls w + 1\<rparr>)) \<and>
   list_all (\<lambda>k. getattr (from_dict d) k = Some (case d k of Some v \<Rightarrow> v | None \<Rightarrow> JFloat 0))
     score_keys \<and>
   (list_all (\<lambda>k. d k = d' k) score_keys \<longrightarrow> from_dict d = from_dict d') \<and>
   (client (calls w) prompt = Raised (JSONDecodeError m) \<and> int attempt < max_retries - 1 \<longrightarrow>
      attempts max_retries client prompt (attempt # rest) w =
        attempts max_retries client prompt rest
          (w\<lparr>calls := calls w + 1, slept := slept w @ [1]\<rparr>)) \<and>
   (client (calls w) prompt = Raised (JSONDecodeError m) \<and> int attempt < max_retries - 1 \<and>
    client (calls w + 1) prompt = Parsed (JObject d) \<longrightarrow>
      attempts max_retries client prompt (attempt # following # rest) w =
        (Inr (Some (from_dict d)), w\<lparr>calls := calls w + 2, slept := slept w @ [1]\<rparr>)) \<and>
   (client (calls w) prompt = Raised (JSONDecodeError m) \<and> \<not> int attempt < max_retries - 1 \<longrightarrow>
      attempts max_retries client prompt (attempt # rest) w =
        (Inl (Exception (''API error after '' @ str_int max_retries @ '' retries: '' @ m)),
         w\<lparr>calls := calls w + 1\<rparr>)) \<and>
   (client (calls w) prompt = Parsed j \<and> (\<forall>obj. j \<noteq> JObject obj) \<longrightarrow>
      attempts max_retries client prompt (attempt # rest) w =
        (Inl (Exception (''Unexpected error during evaluation: '' @ quoted (type_name j) @
                         '' object has no attribute '' @ quoted ''get'')),
         w\<lparr>calls := calls w + 1\<rparr>))"
proof -
  have a: "client (calls w) prompt = Parsed (JObject d) \<longrightarrow>
      attempts max_retries client prompt (attempt # rest) w =
        (Inr (Some (from_dict d)), w\<lparr>calls := calls w + 1\<rparr>)"
    by (simp add: try_call_def)
  have b: "list_all (\<lambda>k. getattr (from_dict d) k = Some (case d k of Some v \<Rightarrow> v | None \<Rightarrow> JFloat 0))
             score_keys"
    by (simp add: list_all_iff getattr_from_dict dict_get_def)
  have c: "list_all (\<lambda>k. d k = d' k) score_keys \<longrightarrow> from_dict d = from_dict d'"
    by (simp add: score_keys_def from_dict_def dict_get_def)
  have d: "client (calls w) prompt = Raised (JSONDecodeError m) \<and> int attempt < max_retries - 1 \<longrightarrow>
      attempts max_retries client prompt (attempt # rest) w =
        attempts max_retries client prompt rest
          (w\<lparr>calls := calls w + 1, slept := slept w @ [1]\<rparr>)"
    for rest
    by (simp add: try_call_def)
  have e: "client (calls w) prompt = Raised (JSONDecodeError m) \<and> int attempt < max_retries - 1 \<and>
    client (calls w + 1) prompt = Parsed (JObject d) \<longrightarrow>
      attempts max_retries client prompt (attempt # following # rest) w =
        (Inr (Some (from_dict d)), w\<lparr>calls := calls w + 2, slept := slept w @ [1]\<rparr>)"
    by (simp add: try_call_def)
  have f: "client (calls w) prompt = Raised (JSONDecodeError m) \<and> \<not> int attempt < max_retries - 1 \<longrightarrow>
      attempts max_retries client prompt (attempt # rest) w =
        (Inl (Exception (''API error after '' @ str_int max_retries @ '' retries: '' @ m)),
         w\<lparr>calls := calls w + 1\<rparr>)"
    by (simp add: try_call_def retry_message_def)
  have g: "client (calls w) prompt = Parsed j \<and> (\<forall>obj. j \<noteq> JObject obj) \<longrightarrow>
      attempts max_retries client prompt (attempt # rest) w =
        (Inl (Exception (''Unexpected error during evaluation: '' @ quoted (type_name j) @
                         '' object has no attribute '' @ quoted ''get'')),
         w\<lparr>calls := calls w + 1\<rparr>)"
    by (cases j) (simp_all add: try_call_def)
  from a b c d e f g show ?thesis by blast
qed

text \<open>
  Instances of the amended C8: an object with a string under one key and a key that is no
  dimension; unparseable content at the first of three attempts, followed by that object;
  unparseable content at the last attempt; a JSON integer.
\<close>

theorem object_accepted_as_it_is_witness:
  "attempts 3
     (\<lambda>n prompt. Parsed (JObject [''clarity'' \<mapsto> JString ''high'', ''verdict'' \<mapsto> JInt 1]))
     ''prompt'' [0, 1, 2] fresh =
     (Inr (Some (from_dict [''clarity'' \<mapsto> JString ''high'', ''verdict'' \<mapsto> JInt 1])),
      \<lparr>calls = 1, slept = []\<rparr>) \<and>
   list_all (\<lambda>k. getattr (from_dict [''clarity'' \<mapsto> JString ''high'', ''verdict'' \<mapsto> JInt 1]) k =
        Some (case [''clarity'' \<mapsto> JString ''high'', ''verdict'' \<mapsto> JInt 1] k of
                Some v \<Rightarrow> v | None \<Rightarrow> JFloat 0))
     score_keys \<and>
   list_all (\<lambda>k. [''clarity'' \<mapsto> JString ''high'', ''verdict'' \<mapsto> JInt 1] k =
                 [''clarity'' \<mapsto> JString ''high''] k) score_keys \<and>
   from_dict [''clarity'' \<mapsto> JString ''high'', ''verdict'' \<mapsto> JInt 1] =
     from_dict [''clarity'' \<mapsto> JString ''high''] \<and>
   attempts 3
     (\<lambda>n prompt. if n = 0 then Raised (JSONDecodeError ''Expecting value'')
                 else Parsed (JObject [''clarity'' \<mapsto> JString ''high'', ''verdict'' \<mapsto> JInt 1]))
     ''prompt'' [0, 1, 2] fresh =
     (Inr (Some (from_dict [''clarity'' \<mapsto> JString ''high'', ''verdict'' \<mapsto> JInt 1])),
      \<lparr>calls = 2, slept = [1]\<rparr>) \<and>
   attempts 3 (\<lambda>n prompt. Raised (JSONDecodeError ''Expecting value'')) ''prompt'' [2]
     \<lparr>calls = 2, slept = [1, 1]\<rparr> =
     (Inl (Exception ''API error after 3 retries: Expecting value''),
      \<lparr>calls = 3, slept = [1, 1]\<rparr>) \<and>
   attempts 3 (\<lambda>n prompt. Parsed (JInt 4)) ''prompt'' [0, 1, 2] fresh =
     (Inl (Exception (''Unexpected error during evaluation: '' @ quoted ''int'' @
                      '' object has no attribute '' @ quoted ''get'')),
      \<lparr>calls = 1, slept = []\<rparr>)"
proof -
  let ?d = "[''clarity'' \<mapsto> JString ''high'', ''verdict'' \<mapsto> JInt 1]"
  let ?steady = "\<lambda>(n::nat) (prompt::string). Parsed (JObject ?d)"
  let ?flaky = "\<lambda>(n::nat) (prompt::string).
                  if n = 0 then Raised (JSONDecodeError ''Expecting value'') else Parsed (JObject ?d)"
  let ?broken = "\<lambda>(n::nat) (prompt::string). Raised (JSONDecodeError ''Expecting value'')"
  let ?number = "\<lambda>(n::nat) (prompt::string). Parsed (JInt 4)"
  let ?late = "\<lparr>calls = 2, slept = [1, 1]\<rparr>"
  have same: "list_all (\<lambda>k. ?d k = [''clarity'' \<mapsto> JString ''high''] k) score_keys"
    by (simp add: score_keys_def)
  have "?steady (calls fresh) ''prompt'' = Parsed (JObject ?d)"
    by simp
  with object_accepted_as_it_is
         [where client = ?steady and w = fresh and prompt = "''prompt''" and d = ?d
            and max_retries = 3 and attempt = 0 and rest = "[1, 2]"
            and d' = "[''clarity'' \<mapsto> JString ''high'']"]
       same
  have "attempts 3 ?steady ''prompt'' [0, 1, 2] fresh =
          (Inr (Some (from_dict ?d)), fresh\<lparr>calls := calls fresh + 1\<rparr>)"
    and i2: "list_all (\<lambda>k. getattr (from_dict ?d) k =
                            Some (case ?d k of Some v \<Rightarrow> v | None \<Rightarrow> JFloat 0)) score_keys"
    and i3: "from_dict ?d = from_dict [''clarity'' \<mapsto> JString ''high'']"
    by blast+
  then have i1: "attempts 3 ?steady ''prompt'' [0, 1, 2] fresh =
                   (Inr (Some (from_dict ?d)), \<lparr>calls = 1, slept = []\<rparr>)"
    by (simp add: fresh_def)
  have "?flaky (calls fresh) ''prompt'' = Raised (JSONDecodeError ''Expecting value'')"
    and "int 0 < (3::int) - 1"
    and "?flaky (calls fresh + 1) ''prompt'' = Parsed (JObject ?d)"
    by (simp_all add: fresh_def)
  with object_accepted_as_it_is
         [where client = ?flaky and w = fresh and prompt = "''prompt''" and d = ?d
            and max_retries = 3 and attempt = 0 and following = 1 and rest = "[2]"
            and m = "''Expecting value''"]
  have "attempts 3 ?flaky ''prompt'' [0, 1, 2] fresh =
          (Inr (Some (from_dict ?d)), fresh\<lparr>calls := calls fresh + 2, slept := slept fresh @ [1]\<rparr>)"
    by blast
  then have i4: "attempts 3 ?flaky ''prompt'' [0, 1, 2] fresh =
                   (Inr (Some (from_dict ?d)), \<lparr>calls = 2, slept = [1]\<rparr>)"
    by (simp add: fresh_def)
  have "?broken (calls ?late) ''prompt'' = Raised (JSONDecodeError ''Expecting value'')"
    and "\<not> int 2 < (3::int) - 1"
    by simp_all
  with object_accepted_as_it_is
         [where client = ?broken and w = ?late and prompt = "''prompt''"
            and max_retries = 3 and attempt = 2 and rest = "[]" and m = "''Expecting value''"]
  have "attempts 3 ?broken ''prompt'' [2] ?late =
          (Inl (Exception (''API error after '' @ str_int 3 @ '' retries: '' @ ''Expecting value'')),
           ?late\<lparr>calls := calls ?late + 1\<rparr>)"
    by blast
  then have i5: "attempts 3 ?broken ''prompt'' [2] ?late =
                   (Inl (Exception ''API error after 3 retries: Expecting value''),
                    \<lparr>calls = 3, slept = [1, 1]\<rparr>)"
    by (simp add: str_int_def str_nat.simps)
  have "?number (calls fresh) ''prompt'' = Parsed (JInt 4)" and "\<forall>obj. JInt 4 \<noteq> JObject obj"
    by simp_all
  with object_accepted_as_it_is
         [where client = ?number and w = fresh and prompt = "''prompt''"
            and max_retries = 3 and attempt = 0 and rest = "[1, 2]" and j = "JInt 4"]
  have "attempts 3 ?number ''prompt'' [0, 1, 2] fresh =
          (Inl (Exception (''Unexpected error during evaluation: '' @ quoted (type_name (JInt 4)) @
                           '' object has no attribute '' @ quoted ''get'')),
           fresh\<lparr>calls := calls fresh + 1\<rparr>)"
    by blast
  then have i6: "attempts 3 ?number ''prompt'' [0, 1, 2] fresh =
                   (Inl (Exception (''Unexpected error during evaluation: '' @ quoted ''int'' @
                                    '' object has no attribute '' @ quoted ''get'')),
                    \<lparr>calls = 1, slept = []\<rparr>)"
    by (simp add: fresh_def)
  from i1 i2 same i3 i4 i5 i6 show ?thesis by blast
qed

section \<open>The CSV row of a failed document\<close>

lemma failed_flat_dict:
  "evaluation r = None \<Longrightarrow>
   to_flat_dict r =
     [(''filename'', Str (filename r)),
      (''relevance'', Num 0), (''factual_accuracy'', Num 0), (''clarity'', Num 0),
      (''hallucination'', Num 0), (''style_match'', Num 0), (''rag_usability'', Num 0),
      (''citation_quality'', Num 0),
      (''status'', Str (status r)),
      (''error_message'', Str (case error_message r of None \<Rightarrow> [] | Some m \<Rightarrow> m))]"
  by (simp add: to_flat_dict_def dict_update_def)

lemma scored_flat_dict:
  "evaluation r = Some e \<Longrightarrow>
   to_flat_dict r =
     [(''filename'', Str (filename r)),
      (''relevance'', Num (relevance e)), (''factual_accuracy'', Num (factual_accuracy e)),
      (''clarity'', Num (clarity e)), (''hallucination'', Num (hallucination e)),
      (''style_match'', Num (style_match e)), (''rag_usability'', Num (rag_usability e)),
      (''citation_quality'', Num (citation_quality e)),
      (''status'', Str (status r)),
      (''error_message'', Str (case error_message r of None \<Rightarrow> [] | Some m \<Rightarrow> m))]"
  by (simp add: to_flat_dict_def dict_update_def to_dict_def)

text \<open>
  C10. The CSV row of a result without evaluation has 0 in the seven score columns; it is
  the row of the same result with an all-zero evaluation, so only the status and the
  error message tell a failed document from one whose scores are all zero.
\<close>

theorem failed_row_reports_zero:
  assumes "evaluation r = None"
  shows "csv_rows [r] =
           Inr [[Str (filename r), Num 0, Num 0, Num 0, Num 0, Num 0, Num 0, Num 0,
                 Str (status r), Str (case error_message r of None \<Rightarrow> [] | Some m \<Rightarrow> m)]] \<and>
         csv_rows [r\<lparr>evaluation := Some zero_evaluation\<rparr>] = csv_rows [r]"
proof -
  have row: "csv_rows [r] =
           Inr [[Str (filename r), Num 0, Num 0, Num 0, Num 0, Num 0, Num 0, Num 0,
                 Str (status r), Str (case error_message r of None \<Rightarrow> [] | Some m \<Rightarrow> m)]]"
    using assms by (simp add: failed_flat_dict dict_to_list_def FIELDNAMES_def)
  have "evaluation (r\<lparr>evaluation := Some zero_evaluation\<rparr>) = Some zero_evaluation"
    by simp
  then have "csv_rows [r\<lparr>evaluation := Some zero_evaluation\<rparr>] =
           Inr [[Str (filename r), Num 0, Num 0, Num 0, Num 0, Num 0, Num 0, Num 0,
                 Str (status r), Str (case error_message r of None \<Rightarrow> [] | Some m \<Rightarrow> m)]]"
    by (simp add: scored_flat_dict dict_to_list_def FIELDNAMES_def zero_evaluation_def)
  with row show ?thesis by simp
qed

text \<open>An instance of C10: the result of a document none of whose chunks was evaluated.\<close>

theorem failed_row_reports_zero_witness:
  "evaluation \<lparr>filename = ''a.docx'', evaluation = None, status = ''error'',
               error_message = Some ''Failed to evaluate any chunks in the document''\<rparr> = None \<and>
   csv_rows [\<lparr>filename = ''a.docx'', evaluation = None, status = ''error'',
              error_message = Some ''Failed to evaluate any chunks in the document''\<rparr>] =
     Inr [[Str ''a.docx'', Num 0, Num 0, Num 0, Num 0, Num 0, Num 0, Num 0, Str ''error'',
           Str ''Failed to evaluate any chunks in the document'']]"
  using failed_row_reports_zero
          [of "\<lparr>filename = ''a.docx'', evaluation = None, status = ''error'',
                error_message = Some ''Failed to evaluate any chunks in the document''\<rparr>"]
  by simp

section \<open>The segmenter: chunks and runs of units\<close>

lemma same_run_save_paragraphs:
  "same_run st g \<Longrightarrow> current_chunk st \<noteq> [] \<Longrightarrow> same_run (save_paragraphs st) (close_run g)"
  by (auto simp: same_run_def save_paragraphs_def close_run_def joined_from_def
        list_all2_appendI)

lemma same_run_close_if:
  "same_run st g \<Longrightarrow>
   same_run (if current_chunk st \<noteq> [] then save_paragraphs st else st) (close_run g)"
  by (auto simp: same_run_save_paragraphs) (auto simp: same_run_def close_run_def)

lemma same_run_add_sentence:
  "same_run st g \<Longrightarrow>
   same_run (add_sentence count_tokens budget st s) (run_sentence count_tokens budget g s)"
  by (auto simp: same_run_def add_sentence_def run_sentence_def add_unit_def Let_def
        save_sentences_def joined_from_def list_all2_appendI)

lemma same_run_sentences:
  "same_run st g \<Longrightarrow>
   same_run (foldl (add_sentence count_tokens budget) st ss)
            (foldl (run_sentence count_tokens budget) g ss)"
  by (induction ss arbitrary: st g) (simp_all add: same_run_add_sentence)

lemma same_run_add_paragraph:
  "same_run st g \<Longrightarrow>
   same_run (add_paragraph count_tokens budget st p) (run_paragraph count_tokens budget g p)"
proof (cases "int (count_tokens p) > budget")
  case True
  assume "same_run st g"
  then have "same_run (if current_chunk st \<noteq> [] then save_paragraphs st else st) (close_run g)"
    by (rule same_run_close_if)
  then show ?thesis
    using True by (simp add: add_paragraph_def run_paragraph_def same_run_sentences)
next
  case False
  assume "same_run st g"
  then show ?thesis
    using False
    by (auto simp: same_run_def add_paragraph_def run_paragraph_def add_unit_def Let_def
          save_paragraphs_def joined_from_def list_all2_appendI)
qed

lemma same_run_paragraphs:
  "same_run st g \<Longrightarrow>
   same_run (foldl (add_paragraph count_tokens budget) st ps)
            (foldl (run_paragraph count_tokens budget) g ps)"
  by (induction ps arbitrary: st g) (simp_all add: same_run_add_paragraph)

lemma same_run_final:
  "same_run st g \<Longrightarrow> list_all2 joined_from (final_chunks st) (saved (close_run g))"
  by (auto simp: same_run_def final_chunks_def close_run_def joined_from_def list_all2_appendI)

lemma split_chunks_runs:
  "list_all2 joined_from (split_chunks count_tokens budget text) (unit_runs count_tokens budget text)"
  unfolding split_chunks_def unit_runs_def
  by (intro same_run_final same_run_paragraphs) (simp add: same_run_def)

lemma all_units_add_unit:
  "all_units (add_unit count_tokens budget g u) = all_units g @ [u]"
  by (simp add: all_units_def add_unit_def)

lemma all_units_close_run: "all_units (close_run g) = all_units g"
  by (simp add: all_units_def close_run_def)

lemma concat_saved_close_run: "concat (saved (close_run g)) = all_units g"
  by (simp add: all_units_def close_run_def)

lemma all_units_sentences:
  "all_units (foldl (run_sentence count_tokens budget) g ss) =
     all_units g @ filter (\<lambda>s. s \<noteq> []) (map strip ss)"
  by (induction ss arbitrary: g) (simp_all add: run_sentence_def all_units_add_unit)

lemma all_units_paragraph:
  "all_units (run_paragraph count_tokens budget g p) = all_units g @ units_of count_tokens budget p"
  by (simp add: run_paragraph_def units_of_def all_units_sentences all_units_close_run
        all_units_add_unit)

lemma all_units_paragraphs:
  "all_units (foldl (run_paragraph count_tokens budget) g ps) =
     all_units g @ concat (map (units_of count_tokens budget) ps)"
  by (induction ps arbitrary: g) (simp_all add: all_units_paragraph)

lemma concat_unit_runs:
  "concat (unit_runs count_tokens budget text) = source_units count_tokens budget text"
proof -
  have "all_units \<lparr>saved = [], pending = [], pending_tokens = 0\<rparr> = []"
    by (simp add: all_units_def)
  then show ?thesis
    by (simp add: unit_runs_def source_units_def concat_saved_close_run all_units_paragraphs)
qed

lemma text_str_chunk_text:
  "map text_str (chunk_text count_tokens budget text) =
     (if int (count_tokens text) \<le> budget then [text]
      else split_chunks count_tokens budget text)"
proof -
  have "map (text_str \<circ> (\<lambda>(i, t). \<lparr>text_str = t, token_count = count_tokens t, chunk_index = i,
                                     total_chunks = n\<rparr>)) (enumerate 0 xs) = xs" for n xs
  proof -
    have "text_str \<circ> (\<lambda>(i, t). \<lparr>text_str = t, token_count = count_tokens t, chunk_index = i,
                                  total_chunks = n\<rparr>) = snd"
      by (auto simp: fun_eq_iff)
    then show ?thesis by simp
  qed
  then show ?thesis
    by (simp add: chunk_text_def Let_def)
qed

subsection \<open>Joining and splitting\<close>

lemma split_on_not_Nil: "split_on sep s \<noteq> []"
  by (induction sep s rule: split_on.induct) (auto split: list.splits)

lemma join_Cons_head: "ps \<noteq> [] \<Longrightarrow> join sep ((c # p) # tl ps) = c # join sep (p # tl ps)"
  by (cases ps) (auto, metis join.simps(2,3) append_Cons list.exhaust)

lemma join_split_on: "sep \<noteq> [] \<Longrightarrow> join sep (split_on sep s) = s"
proof (induction sep s rule: split_on.induct)
  case (1 sep)
  then show ?case by simp
next
  case (2 sep c cs)
  show ?case
  proof (cases "take (length sep) (c # cs) = sep")
    case True
    obtain r rs where r: "split_on sep (drop (length sep) (c # cs)) = r # rs"
      using split_on_not_Nil by (cases "split_on sep (drop (length sep) (c # cs))") auto
    have "join sep (split_on sep (drop (length sep) (c # cs))) = drop (length sep) (c # cs)"
      using 2 True by simp
    then have "join sep (r # rs) = drop (length sep) (c # cs)"
      using r by simp
    moreover have "sep @ drop (length sep) (c # cs) = c # cs"
      using append_take_drop_id [of "length sep" "c # cs"] True by metis
    ultimately have "join sep ([] # r # rs) = c # cs"
      by simp
    then show ?thesis
      using True 2 r by (simp del: join.simps)
  next
    case False
    obtain p ps where p: "split_on sep cs = p # ps"
      using split_on_not_Nil by (cases "split_on sep cs") auto
    have "join sep (p # ps) = cs"
      using 2 False p by simp
    moreover have "join sep ((c # p) # ps) = c # join sep (p # ps)"
      by (cases ps) simp_all
    ultimately show ?thesis
      using False p by simp
  qed
qed

lemma join_append:
  "xs \<noteq> [] \<Longrightarrow> ys \<noteq> [] \<Longrightarrow> join sep (xs @ ys) = join sep xs @ sep @ join sep ys"
proof (induction sep xs rule: join.induct)
  case (1 sep)
  then show ?case by simp
next
  case (2 sep x)
  then show ?case by (cases ys) simp_all
next
  case (3 sep x y zs)
  then show ?case by simp
qed

lemma join_concat:
  "list_all (\<lambda>g. g \<noteq> []) gs \<Longrightarrow> join sep (map (join sep) gs) = join sep (concat gs)"
proof (induction gs)
  case Nil
  then show ?case by simp
next
  case (Cons g gs)
  show ?case
  proof (cases gs)
    case Nil
    then show ?thesis by simp
  next
    case (Cons h hs)
    have "concat gs \<noteq> []"
      using Cons.prems Cons by auto
    moreover have "g \<noteq> []"
      using Cons.prems by simp
    ultimately have "join sep (g @ concat gs) = join sep g @ sep @ join sep (concat gs)"
      by (rule join_append [rotated])
    moreover have "join sep (map (join sep) gs) = join sep (concat gs)"
      using Cons.IH Cons.prems by simp
    ultimately show ?thesis
      using Cons by simp
  qed
qed

subsection \<open>Paragraphs within the budget\<close>

lemma blank_line_run_add:
  "blank_line_run st g \<Longrightarrow> int (count_tokens p) \<le> budget \<Longrightarrow> CHR 0x0A \<notin> set p \<Longrightarrow>
   blank_line_run (add_paragraph count_tokens budget st p) (run_paragraph count_tokens budget g p)"
  by (auto simp: blank_line_run_def add_paragraph_def run_paragraph_def add_unit_def Let_def
        save_paragraphs_def)

lemma blank_line_run_paragraphs:
  "blank_line_run st g \<Longrightarrow>
   list_all (\<lambda>p. int (count_tokens p) \<le> budget \<and> CHR 0x0A \<notin> set p) ps \<Longrightarrow>
   blank_line_run (foldl (add_paragraph count_tokens budget) st ps)
                  (foldl (run_paragraph count_tokens budget) g ps)"
  by (induction ps arbitrary: st g) (simp_all add: blank_line_run_add)

lemma blank_line_run_final:
  "blank_line_run st g \<Longrightarrow>
   final_chunks st = map (join ''\<newline>\<newline>'') (saved (close_run g)) \<and>
   list_all (\<lambda>run. run \<noteq> []) (saved (close_run g))"
  by (cases "pending g")
     (auto simp: blank_line_run_def final_chunks_def close_run_def)

lemma units_of_within_budget:
  "list_all (\<lambda>p. int (count_tokens p) \<le> budget \<and> CHR 0x0A \<notin> set p) ps \<Longrightarrow>
   concat (map (units_of count_tokens budget) ps) = ps"
  by (induction ps) (simp_all add: units_of_def)

lemma split_chunks_rejoined:
  assumes "list_all (\<lambda>p. int (count_tokens p) \<le> budget \<and> CHR 0x0A \<notin> set p)
             (split_on ''\<newline>\<newline>'' text)"
  shows "join ''\<newline>\<newline>'' (split_chunks count_tokens budget text) = text"
proof -
  let ?ps = "split_on ''\<newline>\<newline>'' text"
  let ?start = "\<lparr>saved = [], pending = [], pending_tokens = 0\<rparr>"
  let ?begin = "\<lparr>chunks = [], current_chunk = [], current_tokens = 0\<rparr>"
  let ?g = "foldl (run_paragraph count_tokens budget) ?start ?ps"
  have "blank_line_run ?begin ?start"
    by (simp add: blank_line_run_def)
  then have "blank_line_run (foldl (add_paragraph count_tokens budget) ?begin ?ps) ?g"
    using assms by (rule blank_line_run_paragraphs)
  from blank_line_run_final [OF this]
  have fin: "split_chunks count_tokens budget text =
               map (join ''\<newline>\<newline>'') (saved (close_run ?g))"
    and ne: "list_all (\<lambda>run. run \<noteq> []) (saved (close_run ?g))"
    unfolding split_chunks_def by simp_all
  have "all_units ?start = []"
    by (simp add: all_units_def)
  then have "concat (saved (close_run ?g)) = ?ps"
    using assms
    by (simp add: concat_saved_close_run all_units_paragraphs units_of_within_budget)
  then have "join ''\<newline>\<newline>'' (split_chunks count_tokens budget text) = join ''\<newline>\<newline>'' ?ps"
    using fin join_concat [OF ne, of "''\<newline>\<newline>''"] by simp
  then show ?thesis
    by (simp add: join_split_on)
qed

subsection \<open>What the budget check does bound\<close>

lemma bounded_add_unit:
  "bounded_runs count_tokens budget g \<Longrightarrow>
   bounded_runs count_tokens budget (add_unit count_tokens budget g u)"
  by (cases "pending g") (auto simp: bounded_runs_def add_unit_def fits_def)

lemma bounded_close_run:
  "bounded_runs count_tokens budget g \<Longrightarrow> bounded_runs count_tokens budget (close_run g)"
  by (auto simp: bounded_runs_def close_run_def fits_def)

lemma bounded_sentences:
  "bounded_runs count_tokens budget g \<Longrightarrow>
   bounded_runs count_tokens budget (foldl (run_sentence count_tokens budget) g ss)"
  by (induction ss arbitrary: g) (simp_all add: run_sentence_def bounded_add_unit)

lemma bounded_paragraphs:
  "bounded_runs count_tokens budget g \<Longrightarrow>
   bounded_runs count_tokens budget (foldl (run_paragraph count_tokens budget) g ps)"
  by (induction ps arbitrary: g)
     (simp_all add: run_paragraph_def bounded_add_unit bounded_close_run bounded_sentences)

lemma unit_runs_fit:
  "list_all (fits count_tokens budget) (unit_runs count_tokens budget text)"
proof -
  have "bounded_runs count_tokens budget \<lparr>saved = [], pending = [], pending_tokens = 0\<rparr>"
    by (simp add: bounded_runs_def fits_def)
  then have "bounded_runs count_tokens budget
               (close_run (foldl (run_paragraph count_tokens budget)
                  \<lparr>saved = [], pending = [], pending_tokens = 0\<rparr>
                  (split_on ''\<newline>\<newline>'' text)))"
    by (intro bounded_close_run bounded_paragraphs)
  then show ?thesis
    by (simp add: unit_runs_def bounded_runs_def)
qed

subsection \<open>The claims about the segmenter\<close>

text \<open>
  C1. The claim: every chunk is within the budget unless it is one sentence that alone
  exceeds it. In the program the budget is checked on the sum of the token counts of the
  units, and the separators that join them are not counted: for the two paragraphs
  \<^verbatim>\<open>a\<close> and \<^verbatim>\<open>b\<close>, whenever they fit the budget together and the text
  \<^verbatim>\<open>a\n\nb\<close> does not, the only chunk is the whole text, over the budget.
\<close>

theorem joined_paragraphs_over_budget:
  assumes "int (count_tokens ''a'' + count_tokens ''b'') \<le> budget"
    and "budget < int (count_tokens ''a\<newline>\<newline>b'')"
  shows "chunk_text count_tokens budget ''a\<newline>\<newline>b'' =
           [\<lparr>text_str = ''a\<newline>\<newline>b'', token_count = count_tokens ''a\<newline>\<newline>b'',
             chunk_index = 0, total_chunks = 1\<rparr>] \<and>
         split_on ''\<newline>\<newline>'' ''a\<newline>\<newline>b'' = [''a'', ''b''] \<and>
         budget < int (token_count (hd (chunk_text count_tokens budget ''a\<newline>\<newline>b'')))"
proof -
  have paras: "split_on ''\<newline>\<newline>'' ''a\<newline>\<newline>b'' = [''a'', ''b'']"
    by simp
  have a: "\<not> int (count_tokens ''a'') > budget" and b: "\<not> int (count_tokens ''b'') > budget"
    using assms(1) by simp_all
  have "split_chunks count_tokens budget ''a\<newline>\<newline>b'' = [''a\<newline>\<newline>b'']"
    unfolding split_chunks_def paras
    using a b assms(1)
    by (simp add: add_paragraph_def final_chunks_def Let_def)
  then have "chunk_text count_tokens budget ''a\<newline>\<newline>b'' =
           [\<lparr>text_str = ''a\<newline>\<newline>b'', token_count = count_tokens ''a\<newline>\<newline>b'',
             chunk_index = 0, total_chunks = 1\<rparr>]"
    using assms(2) by (simp add: chunk_text_def Let_def enumerate_eq_zip)
  with paras assms(2) show ?thesis by simp
qed

text \<open>An instance of C1's failure: one token per character and a budget of 2.\<close>

theorem joined_paragraphs_over_budget_witness:
  "int (char_tokens ''a'' + char_tokens ''b'') \<le> 2 \<and>
   2 < int (char_tokens ''a\<newline>\<newline>b'') \<and>
   chunk_text char_tokens 2 ''a\<newline>\<newline>b'' =
     [\<lparr>text_str = ''a\<newline>\<newline>b'', token_count = 4, chunk_index = 0, total_chunks = 1\<rparr>]"
  using joined_paragraphs_over_budget [of char_tokens 2]
  by (simp add: char_tokens_def)

text \<open>
  C4, as stated, fails: for the empty text \<^verbatim>\<open>chunk_text\<close> returns one chunk, whose text
  is empty.
\<close>

theorem empty_text_counterexample:
  "chunk_text char_tokens 4000 [] \<noteq> [] \<and>
   chunk_text char_tokens 4000 [] =
     [\<lparr>text_str = [], token_count = 0, chunk_index = 0, total_chunks = 1\<rparr>]"
  by (simp add: chunk_text_def char_tokens_def)

text \<open>
  C4, amended. For the empty text, a tokenizer that counts no token in it and a positive
  budget, \<^verbatim>\<open>chunk_text\<close> returns exactly one chunk: empty text, 0 tokens, index 0 of 1.
\<close>

theorem empty_text_one_chunk:
  assumes "count_tokens [] = 0" and "0 < budget"
  shows "chunk_text count_tokens budget [] =
           [\<lparr>text_str = [], token_count = 0, chunk_index = 0, total_chunks = 1\<rparr>]"
  using assms by (simp add: chunk_text_def)

text \<open>An instance of the amended C4.\<close>

theorem empty_text_one_chunk_witness:
  "char_tokens [] = 0 \<and> (0::int) < 2 \<and>
   chunk_text char_tokens 2 [] =
     [\<lparr>text_str = [], token_count = 0, chunk_index = 0, total_chunks = 1\<rparr>]"
  using empty_text_one_chunk [of char_tokens 2]
  by (simp add: char_tokens_def)

text \<open>
  What does hold of the chunks. A text within the budget is returned as one chunk.
  Otherwise every chunk is a non-empty run of units joined with a blank line or with a
  period and a space, and the runs, in index order, hold exactly the units of the source in
  their order. And when no paragraph is over the budget or holds a newline, the chunks
  joined with a blank line are the text itself.
\<close>

lemma chunks_hold_the_units_in_order:
  "(int (count_tokens text) \<le> budget \<longrightarrow>
      map text_str (chunk_text count_tokens budget text) = [text]) \<and>
   (budget < int (count_tokens text) \<longrightarrow>
      list_all2 joined_from (map text_str (chunk_text count_tokens budget text))
        (unit_runs count_tokens budget text) \<and>
      concat (unit_runs count_tokens budget text) = source_units count_tokens budget text) \<and>
   (list_all (\<lambda>p. int (count_tokens p) \<le> budget \<and> CHR 0x0A \<notin> set p)
      (split_on ''\<newline>\<newline>'' text) \<longrightarrow>
      join ''\<newline>\<newline>'' (map text_str (chunk_text count_tokens budget text)) = text)"
  by (simp add: text_str_chunk_text split_chunks_runs concat_unit_runs split_chunks_rejoined)

text \<open>
  C2. The claim: the chunks, joined again in index order, give back the paragraphs and
  sentences of the source. In the program the last chunk is joined with a blank line
  whenever its first item holds no newline, also when the items are sentences of one
  paragraph: for the one-paragraph text \<^verbatim>\<open>aaaaaa. bb. c\<close>, whenever the paragraph is over
  the budget, the first two sentences do not fit together and the last two do, the chunks
  are \<^verbatim>\<open>aaaaaa.\<close> and \<^verbatim>\<open>bb\n\nc\<close>. The period after \<^verbatim>\<open>bb\<close> is gone, the last chunk shows
  as two paragraphs what is one paragraph of the source, and no separator between the
  chunks gives the text back.
\<close>

theorem last_sentences_joined_as_paragraphs:
  assumes "budget < int (count_tokens ''aaaaaa. bb. c'')"
    and "budget < int (count_tokens ''aaaaaa'' + count_tokens ''bb'')"
    and "int (count_tokens ''bb'' + count_tokens ''c'') \<le> budget"
  shows "map text_str (chunk_text count_tokens budget ''aaaaaa. bb. c'') =
           [''aaaaaa.'', ''bb\<newline>\<newline>c''] \<and>
         join sep (map text_str (chunk_text count_tokens budget ''aaaaaa. bb. c'')) \<noteq>
           ''aaaaaa. bb. c'' \<and>
         source_units count_tokens budget ''aaaaaa. bb. c'' = [''aaaaaa'', ''bb'', ''c''] \<and>
         paragraphs_of ''aaaaaa. bb. c'' = [''aaaaaa. bb. c''] \<and>
         paragraphs_of ''bb\<newline>\<newline>c'' = [''bb'', ''c'']"
proof -
  have paras: "split_on ''\<newline>\<newline>'' ''aaaaaa. bb. c'' = [''aaaaaa. bb. c'']"
    by simp
  have sentences: "split_on ''. '' ''aaaaaa. bb. c'' = [''aaaaaa'', ''bb'', ''c'']"
    by simp
  have strips: "strip ''aaaaaa'' = ''aaaaaa''" "strip ''bb'' = ''bb''" "strip ''c'' = ''c''"
    by (simp_all add: strip_def py_isspace_def)
  have "split_chunks count_tokens budget ''aaaaaa. bb. c'' = [''aaaaaa.'', ''bb\<newline>\<newline>c'']"
    unfolding split_chunks_def paras
    using assms
    by (simp add: add_paragraph_def sentences add_sentence_def strips save_sentences_def
          final_chunks_def Let_def)
  then have chunks: "map text_str (chunk_text count_tokens budget ''aaaaaa. bb. c'') =
                       [''aaaaaa.'', ''bb\<newline>\<newline>c'']"
    using assms(1) by (simp add: text_str_chunk_text)
  have "''aaaaaa.'' @ sep @ ''bb\<newline>\<newline>c'' \<noteq> ''aaaaaa. bb. c''"
  proof
    assume "''aaaaaa.'' @ sep @ ''bb\<newline>\<newline>c'' = ''aaaaaa. bb. c''"
    then have "rev (''aaaaaa.'' @ sep @ ''bb\<newline>\<newline>c'') ! 1 = rev ''aaaaaa. bb. c'' ! 1"
      by simp
    then show False
      by simp
  qed
  then have rejoined: "join sep (map text_str (chunk_text count_tokens budget ''aaaaaa. bb. c'')) \<noteq>
                         ''aaaaaa. bb. c''"
    unfolding chunks by simp
  have units: "source_units count_tokens budget ''aaaaaa. bb. c'' = [''aaaaaa'', ''bb'', ''c'']"
    using assms(1) by (simp add: source_units_def paras units_of_def sentences strips)
  have "paragraphs_of ''aaaaaa. bb. c'' = [''aaaaaa. bb. c'']"
    and "paragraphs_of ''bb\<newline>\<newline>c'' = [''bb'', ''c'']"
    by (simp_all add: paragraphs_of_def strip_def py_isspace_def)
  with chunks rejoined units show ?thesis by simp
qed

text \<open>An instance of C2's failure: one token per character and a budget of 6.\<close>

theorem last_sentences_joined_as_paragraphs_witness:
  "6 < int (char_tokens ''aaaaaa. bb. c'') \<and>
   6 < int (char_tokens ''aaaaaa'' + char_tokens ''bb'') \<and>
   int (char_tokens ''bb'' + char_tokens ''c'') \<le> 6 \<and>
   map text_str (chunk_text char_tokens 6 ''aaaaaa. bb. c'') = [''aaaaaa.'', ''bb\<newline>\<newline>c''] \<and>
   join ''. '' (map text_str (chunk_text char_tokens 6 ''aaaaaa. bb. c'')) \<noteq> ''aaaaaa. bb. c'' \<and>
   join '' '' (map text_str (chunk_text char_tokens 6 ''aaaaaa. bb. c'')) \<noteq> ''aaaaaa. bb. c''"
proof -
  have h: "6 < int (char_tokens ''aaaaaa. bb. c'')"
    "6 < int (char_tokens ''aaaaaa'' + char_tokens ''bb'')"
    "int (char_tokens ''bb'' + char_tokens ''c'') \<le> 6"
    by (simp_all add: char_tokens_def)
  from last_sentences_joined_as_paragraphs [OF h, of "''. ''"]
       last_sentences_joined_as_paragraphs [OF h, of "'' ''"] h
  show ?thesis by blast
qed

end
